theory Spec2Isabelle
  imports Complex_Main "HOL-Library.Word" "HOL-Library.Signed_Division"
begin

section \<open>HLSL values\<close>

text \<open>
  The shaders of \<^verbatim>\<open>Shaders/Shader.hlsli\<close> compute on 32-bit floats. The model
  computes on \<^typ>\<open>real\<close>: rounding is not modelled, and there is no NaN and no
  infinity. The intrinsics below agree with HLSL on the arguments named at each
  definition; the theorems say so where a result depends on it.
\<close>

datatype float2 = float2 (x2: real) (y2: real)
datatype float3 = float3 (x3: real) (y3: real) (z3: real)
datatype float4 = float4 (x4: real) (y4: real) (z4: real) (w4: real)

text \<open>A \<^verbatim>\<open>float4x4\<close> is given by its four rows.\<close>

datatype float4x4 = float4x4 (row0: float4) (row1: float4) (row2: float4) (row3: float4)

text \<open>
  Fixed-size arrays: \<^verbatim>\<open>InputPatch<T, 4>\<close>, \<^verbatim>\<open>OutputPatch<T, 4>\<close>,
  \<^verbatim>\<open>float edgeTess[4]\<close> and \<^verbatim>\<open>float insideTess[2]\<close>. An index beyond the
  last element is undefined in HLSL; the model reads the last element there.
\<close>

datatype 'a array4 = array4 'a 'a 'a 'a
datatype 'a array2 = array2 'a 'a

fun at4 :: "'a array4 \<Rightarrow> nat \<Rightarrow> 'a" where
  "at4 (array4 a b c d) i = (if i = 0 then a else if i = 1 then b else if i = 2 then c else d)"

fun at2 :: "'a array2 \<Rightarrow> nat \<Rightarrow> 'a" where
  "at2 (array2 a b) i = (if i = 0 then a else b)"

instantiation float2 :: "{plus, times, scaleR}"
begin
definition times_float2 :: "float2 \<Rightarrow> float2 \<Rightarrow> float2" where
  "times_float2 a b = float2 (x2 a * x2 b) (y2 a * y2 b)"
definition plus_float2 :: "float2 \<Rightarrow> float2 \<Rightarrow> float2" where
  "plus_float2 a b = float2 (x2 a + x2 b) (y2 a + y2 b)"
definition scaleR_float2 :: "real \<Rightarrow> float2 \<Rightarrow> float2" where
  "scaleR_float2 s a = float2 (s * x2 a) (s * y2 a)"
instance ..
end

instantiation float3 :: "{plus, minus, uminus, times, scaleR}"
begin
definition uminus_float3 :: "float3 \<Rightarrow> float3" where
  "uminus_float3 a = float3 (- x3 a) (- y3 a) (- z3 a)"
definition times_float3 :: "float3 \<Rightarrow> float3 \<Rightarrow> float3" where
  "times_float3 a b = float3 (x3 a * x3 b) (y3 a * y3 b) (z3 a * z3 b)"
definition plus_float3 :: "float3 \<Rightarrow> float3 \<Rightarrow> float3" where
  "plus_float3 a b = float3 (x3 a + x3 b) (y3 a + y3 b) (z3 a + z3 b)"
definition minus_float3 :: "float3 \<Rightarrow> float3 \<Rightarrow> float3" where
  "minus_float3 a b = float3 (x3 a - x3 b) (y3 a - y3 b) (z3 a - z3 b)"
definition scaleR_float3 :: "real \<Rightarrow> float3 \<Rightarrow> float3" where
  "scaleR_float3 s a = float3 (s * x3 a) (s * y3 a) (s * z3 a)"
instance ..
end

instantiation float4 :: "{plus, scaleR}"
begin
definition plus_float4 :: "float4 \<Rightarrow> float4 \<Rightarrow> float4" where
  "plus_float4 a b = float4 (x4 a + x4 b) (y4 a + y4 b) (z4 a + z4 b) (w4 a + w4 b)"
definition scaleR_float4 :: "real \<Rightarrow> float4 \<Rightarrow> float4" where
  "scaleR_float4 s a = float4 (s * x4 a) (s * y4 a) (s * z4 a) (s * w4 a)"
instance ..
end

text \<open>Swizzles and the implicit truncation of a \<^verbatim>\<open>float4\<close> assigned to a \<^verbatim>\<open>float3\<close>.\<close>

definition xyz :: "float4 \<Rightarrow> float3" where
  "xyz v = float3 (x4 v) (y4 v) (z4 v)"

definition xy :: "float4 \<Rightarrow> float2" where
  "xy v = float2 (x4 v) (y4 v)"

definition float4_of :: "float3 \<Rightarrow> real \<Rightarrow> float4" where
  "float4_of v s = float4 (x3 v) (y3 v) (z3 v) s"

subsection \<open>Intrinsic functions\<close>

definition dot3 :: "float3 \<Rightarrow> float3 \<Rightarrow> real" where
  "dot3 a b = x3 a * x3 b + y3 a * y3 b + z3 a * z3 b"

definition dot4 :: "float4 \<Rightarrow> float4 \<Rightarrow> real" where
  "dot4 a b = x4 a * x4 b + y4 a * y4 b + z4 a * z4 b + w4 a * w4 b"

definition length3 :: "float3 \<Rightarrow> real" where
  "length3 v = sqrt (dot3 v v)"

definition length4 :: "float4 \<Rightarrow> real" where
  "length4 v = sqrt (dot4 v v)"

text \<open>
  \<^verbatim>\<open>normalize(v)\<close> is \<^verbatim>\<open>v / length(v)\<close> over all the components of \<^verbatim>\<open>v\<close>. On the
  zero vector HLSL yields NaN; the model yields the zero vector.
\<close>

definition normalize3 :: "float3 \<Rightarrow> float3" where
  "normalize3 v = (1 / length3 v) *\<^sub>R v"

definition normalize4 :: "float4 \<Rightarrow> float4" where
  "normalize4 v = (1 / length4 v) *\<^sub>R v"

definition distance3 :: "float3 \<Rightarrow> float3 \<Rightarrow> real" where
  "distance3 a b = length3 (a - b)"

definition cross :: "float3 \<Rightarrow> float3 \<Rightarrow> float3" where
  "cross a b = float3 (y3 a * z3 b - z3 a * y3 b)
                      (z3 a * x3 b - x3 a * z3 b)
                      (x3 a * y3 b - y3 a * x3 b)"

definition saturate :: "real \<Rightarrow> real" where
  "saturate v = min 1 (max 0 v)"

definition saturate2 :: "float2 \<Rightarrow> float2" where
  "saturate2 v = float2 (saturate (x2 v)) (saturate (y2 v))"

definition saturate3 :: "float3 \<Rightarrow> float3" where
  "saturate3 v = float3 (saturate (x3 v)) (saturate (y3 v)) (saturate (z3 v))"

text \<open>\<^verbatim>\<open>pow(x, y)\<close>, for \<^verbatim>\<open>x\<close> not negative (HLSL yields NaN below zero).\<close>

definition pow :: "real \<Rightarrow> real \<Rightarrow> real" where
  "pow b e = b powr e"

definition lerp :: "real \<Rightarrow> real \<Rightarrow> real \<Rightarrow> real" where
  "lerp a b s = a + s * (b - a)"

definition lerp3 :: "float3 \<Rightarrow> float3 \<Rightarrow> real \<Rightarrow> float3" where
  "lerp3 a b s = a + s *\<^sub>R (b - a)"

text \<open>\<^verbatim>\<open>mul(v, M)\<close> with a row vector on the left.\<close>

definition mul :: "float4 \<Rightarrow> float4x4 \<Rightarrow> float4" where
  "mul v M = x4 v *\<^sub>R row0 M + y4 v *\<^sub>R row1 M + z4 v *\<^sub>R row2 M + w4 v *\<^sub>R row3 M"

text \<open>\<^verbatim>\<open>mul(v, M)\<close> for a \<^verbatim>\<open>float3x3\<close> built from three rows.\<close>

definition mul3 :: "float3 \<Rightarrow> float3 \<times> float3 \<times> float3 \<Rightarrow> float3" where
  "mul3 v M = (case M of (r0, r1, r2) \<Rightarrow> x3 v *\<^sub>R r0 + y3 v *\<^sub>R r1 + z3 v *\<^sub>R r2)"

text \<open>\<^verbatim>\<open>sign(x)\<close> returns an \<^verbatim>\<open>int\<close>: -1, 0 or 1.\<close>

definition sign :: "real \<Rightarrow> int" where
  "sign v = (if v < 0 then - 1 else if v = 0 then 0 else 1)"

text \<open>
  \<^verbatim>\<open>atan2(y, x)\<close>: the angle of the point \<open>(x, y)\<close>, in \<open>(-\<pi>, \<pi>]\<close>. HLSL leaves
  the origin undefined; the model yields 0 there.
\<close>

definition atan2 :: "real \<Rightarrow> real \<Rightarrow> real" where
  "atan2 y x =
     (if 0 < x then arctan (y / x)
      else if x < 0 then (if 0 \<le> y then arctan (y / x) + pi else arctan (y / x) - pi)
      else if 0 < y then pi / 2
      else if y < 0 then - (pi / 2)
      else 0)"

text \<open>\<^verbatim>\<open>round(x)\<close>: the nearest integer, halfway cases to the even one, as a float.\<close>

definition round_ne :: "real \<Rightarrow> real" where
  "round_ne v =
     (let f = \<lfloor>v\<rfloor>; r = v - of_int f
      in if r < 1/2 then of_int f
         else if 1/2 < r then of_int (f + 1)
         else if even f then of_int f else of_int (f + 1))"

text \<open>The conversion of a float to \<^verbatim>\<open>int\<close> truncates towards zero.\<close>

definition ftoi :: "real \<Rightarrow> int" where
  "ftoi v = (if 0 \<le> v then \<lfloor>v\<rfloor> else \<lceil>v\<rceil>)"

definition floor2 :: "float2 \<Rightarrow> float2" where
  "floor2 v = float2 (of_int \<lfloor>x2 v\<rfloor>) (of_int \<lfloor>y2 v\<rfloor>)"

definition frac2 :: "float2 \<Rightarrow> float2" where
  "frac2 v = float2 (frac (x2 v)) (frac (y2 v))"

section \<open>Constant buffer, textures and I/O structures\<close>

record OpaqueCBType =
  worldMatrix :: float4x4
  viewProjMatrix :: float4x4
  cameraPosition :: float4
  lightDirection :: float4
  lightColor :: float4
  shadowTransform :: float4x4
  shadowBias :: real

text \<open>
  The resources bound to the shaders: the constant buffer \<^verbatim>\<open>cb\<close> and the textures
  \<^verbatim>\<open>texMap[5]\<close>, read through the samplers \<^verbatim>\<open>samAnisotropic\<close> and \<^verbatim>\<open>samShadow\<close>.
  What a texture holds is not part of the shader, so each way of reading one is a
  function of the texture's index in \<^verbatim>\<open>texMap\<close> and of the arguments of the call:
  \<^verbatim>\<open>Sample\<close>, \<^verbatim>\<open>SampleLevel\<close>, \<^verbatim>\<open>SampleCmpLevelZero\<close> and the width that
  \<^verbatim>\<open>GetDimensions\<close> reports. The mip level that \<^verbatim>\<open>Sample\<close> derives from the
  neighbouring pixels is not modelled.
\<close>

record Bindings =
  cb :: OpaqueCBType
  texSample :: "int \<Rightarrow> float2 \<Rightarrow> float4"
  texSampleLevel :: "int \<Rightarrow> float2 \<Rightarrow> real \<Rightarrow> float4"
  texSampleCmpLevelZero :: "int \<Rightarrow> float2 \<Rightarrow> real \<Rightarrow> real"
  texWidth :: "int \<Rightarrow> nat"

text \<open>
  Every shader function that reads a texture returns, next to its value, the texture
  reads it made, in the order of the source.
\<close>

datatype lookup =
    Sample int float2
  | SampleLevel int float2 real
  | SampleCmpLevelZero int float2 real

datatype VS_INPUT = VS_INPUT (vsin_position: float4)
datatype VS_OUTPUT = VS_OUTPUT (vs_position: float4)
datatype HS_OUT = HS_OUT (hs_position: float3)
datatype DS_OUT = DS_OUT (ds_position: float4) (catPos: float3)
datatype PS_OUTPUT = PS_OUTPUT (color: float4)

record PatchTess =
  edgeTess :: "real array4"
  insideTess :: "real array2"

section \<open>Vertex shader and hull shader\<close>

definition VS :: "VS_INPUT \<Rightarrow> VS_OUTPUT" where
  "VS input = VS_OUTPUT (vsin_position input)"

definition PI :: real where "PI = 3.1415926538"
definition near :: real where "near = 20"
definition far :: real where "far = 150"

definition CalcTessFactor :: "Bindings \<Rightarrow> float3 \<Rightarrow> real" where
  "CalcTessFactor g p =
     (let d = distance3 p (xyz (cameraPosition (cb g)));
          s = saturate ((d - near) / (far - near))
      in pow 2 (- 8 * pow s (1/2) + 8))"

text \<open>
  \<^verbatim>\<open>patch[i].position\<close> is a \<^verbatim>\<open>float4\<close>: \<^verbatim>\<open>normalize\<close> divides by the length of
  all four components, and the assignment to a \<^verbatim>\<open>float3\<close> keeps the first three.
\<close>

definition ConstantHS :: "Bindings \<Rightarrow> VS_OUTPUT array4 \<Rightarrow> int \<Rightarrow> PatchTess" where
  "ConstantHS g patch patchID =
     (let localPos = xyz ((1/4) *\<^sub>R (vs_position (at4 patch 0) + vs_position (at4 patch 1)
                                    + vs_position (at4 patch 2) + vs_position (at4 patch 3)));
          worldPos = xyz (mul (float4_of localPos 1) (worldMatrix (cb g)));
          p0 = xyz (150 *\<^sub>R normalize4 (vs_position (at4 patch 0)));
          p1 = xyz (150 *\<^sub>R normalize4 (vs_position (at4 patch 1)));
          p2 = xyz (150 *\<^sub>R normalize4 (vs_position (at4 patch 2)));
          p3 = xyz (150 *\<^sub>R normalize4 (vs_position (at4 patch 3)));
          e0 = (1/2) *\<^sub>R (p0 + p2);
          e1 = (1/2) *\<^sub>R (p0 + p1);
          e2 = (1/2) *\<^sub>R (p1 + p3);
          e3 = (1/2) *\<^sub>R (p2 + p3);
          c = 150 *\<^sub>R normalize3 worldPos;
          inside0 = CalcTessFactor g c
      in \<lparr> edgeTess = array4 (CalcTessFactor g e0) (CalcTessFactor g e1)
                                (CalcTessFactor g e2) (CalcTessFactor g e3),
           insideTess = array2 inside0 inside0 \<rparr>)"

definition HS :: "VS_OUTPUT array4 \<Rightarrow> nat \<Rightarrow> int \<Rightarrow> HS_OUT" where
  "HS input vertexIdx patchID = HS_OUT (xyz (vs_position (at4 input vertexIdx)))"

section \<open>Domain shader\<close>

definition size_c :: float2 where "size_c = float2 2 0"
definition off :: float3 where "off = float3 (- 1) 0 1"
definition nTex :: float2 where "nTex = float2 11520 11520"

text \<open>Bilinear interpolation of the four control points (the first lines of \<^verbatim>\<open>DS\<close>).\<close>

definition DS_position :: "HS_OUT array4 \<Rightarrow> float2 \<Rightarrow> float3" where
  "DS_position input uv =
     (let v1 = lerp3 (hs_position (at4 input 0)) (hs_position (at4 input 1)) (x2 uv);
          v2 = lerp3 (hs_position (at4 input 2)) (hs_position (at4 input 3)) (x2 uv)
      in lerp3 v1 v2 (y2 uv))"

text \<open>
  The level of detail of the height map: \<^verbatim>\<open>max(0, 8 - sqrt(tess) - 3)\<close>, for a
  tessellation factor that is not negative (HLSL's \<^verbatim>\<open>sqrt\<close> yields NaN below zero).
\<close>

definition DS_level :: "real \<Rightarrow> real" where
  "DS_level tess = max 0 (8 - sqrt tess - 3)"

text \<open>
  Cartesian to polar, and polar to texture coordinates: the same lines in \<^verbatim>\<open>DS\<close>
  and in \<^verbatim>\<open>PS\<close>. \<^verbatim>\<open>acos\<close> is read on \<open>[-1, 1]\<close>.
\<close>

definition polar_theta :: "float3 \<Rightarrow> real" where
  "polar_theta normCatPos =
     (let theta = atan2 (z3 normCatPos) (x3 normCatPos)
      in if sign theta = - 1 then 2 * PI + theta else theta)"

definition polar_phi :: "float3 \<Rightarrow> real" where
  "polar_phi normCatPos = arccos (y3 normCatPos)"

definition gTexCoord :: "float3 \<Rightarrow> float2" where
  "gTexCoord normCatPos =
     float2 (polar_theta normCatPos / (2 * PI)) (polar_phi normCatPos / PI)"

text \<open>The re-mapping of the texture coordinates onto one of the two halves.\<close>

definition sTexCoord :: "int \<Rightarrow> float2 \<Rightarrow> float2" where
  "sTexCoord texIndex gTex =
     float2 (if texIndex = 0 then x2 gTex * 2 else (x2 gTex - 1/2) * 2) (y2 gTex)"

definition DS_texIndex :: "float2 \<Rightarrow> int" where
  "DS_texIndex gTex = ftoi (round_ne (x2 gTex) + 2)"

definition DS :: "Bindings \<Rightarrow> HS_OUT array4 \<Rightarrow> float2 \<Rightarrow> PatchTess \<Rightarrow> DS_OUT \<times> lookup list" where
  "DS g input uv patch =
     (let position = DS_position input uv;
          tess = at4 (edgeTess patch) 0;
          level = DS_level tess;
          normCatPos = normalize3 position;
          gTex = gTexCoord normCatPos;
          texIndex = DS_texIndex gTex;
          sTex = sTexCoord texIndex gTex;
          height = x4 (texSampleLevel g texIndex sTex level);
          catPos = (150 + height * (1/2)) *\<^sub>R normCatPos;
          out_position = mul (float4_of catPos 1) (worldMatrix (cb g));
          out_position = mul out_position (viewProjMatrix (cb g))
      in (DS_OUT out_position catPos, [SampleLevel texIndex sTex level]))"

section \<open>Pixel shader\<close>

definition GetNormalFromHeight :: "Bindings \<Rightarrow> int \<Rightarrow> float2 \<Rightarrow> real \<Rightarrow> float3 \<times> lookup list" where
  "GetNormalFromHeight g tex sTex multiplier =
     (let offxy = float2 (x3 off / x2 nTex) (y3 off / y2 nTex);
          offzy = float2 (z3 off / x2 nTex) (y3 off / y2 nTex);
          offyx = float2 (y3 off / x2 nTex) (x3 off / y2 nTex);
          offyz = float2 (y3 off / x2 nTex) (z3 off / y2 nTex);
          a = x4 (texSample g tex (sTex + multiplier *\<^sub>R offxy));
          b = x4 (texSample g tex (sTex + multiplier *\<^sub>R offzy));
          c = x4 (texSample g tex (sTex + multiplier *\<^sub>R offyx));
          d = x4 (texSample g tex (sTex + multiplier *\<^sub>R offyz));
          va = normalize3 (float3 (x2 size_c) (y2 size_c) ((b - a) * (1/2)));
          vb = normalize3 (float3 (y2 size_c) (x2 size_c) ((d - c) * (1/2)))
      in (normalize3 (cross va vb),
          [Sample tex (sTex + multiplier *\<^sub>R offxy), Sample tex (sTex + multiplier *\<^sub>R offzy),
           Sample tex (sTex + multiplier *\<^sub>R offyx), Sample tex (sTex + multiplier *\<^sub>R offyz)]))"

text \<open>
  The loop of \<^verbatim>\<open>CalcShadowFactor\<close>: \<^verbatim>\<open>for (int i = 0; i < 9; ++i)\<close>, adding one
  comparison sample to \<^verbatim>\<open>percentLit\<close> in each round.
\<close>

function shadow_loop ::
  "Bindings \<Rightarrow> float2 \<Rightarrow> real \<Rightarrow> float2 list \<Rightarrow> nat \<Rightarrow> real \<times> lookup list \<Rightarrow> real \<times> lookup list" where
  "shadow_loop g pos depth offsets i acc =
     (if i < 9
      then shadow_loop g pos depth offsets (i + 1)
             (fst acc + texSampleCmpLevelZero g 4 (saturate2 (pos + offsets ! i)) depth,
              snd acc @ [SampleCmpLevelZero 4 (saturate2 (pos + offsets ! i)) depth])
      else acc)"
  by pat_completeness auto
termination
  by (relation "measure (\<lambda>(g, pos, depth, offsets, i, acc). 9 - i)") auto

text \<open>
  \<^verbatim>\<open>shadowPosH.xyz /= shadowPosH.w\<close> divides by \<^verbatim>\<open>w\<close>, and \<^verbatim>\<open>1.0f / (float) width\<close>
  by the width of the shadow map: the model agrees with HLSL where neither is zero.
\<close>

definition CalcShadowFactor :: "Bindings \<Rightarrow> float4 \<Rightarrow> real \<times> lookup list" where
  "CalcShadowFactor g shadowPosH =
     (let shadowPos = float4 (x4 shadowPosH / w4 shadowPosH) (y4 shadowPosH / w4 shadowPosH)
                             (z4 shadowPosH / w4 shadowPosH) (w4 shadowPosH);
          depth = z4 shadowPos - shadowBias (cb g);
          width = texWidth g 4;
          dx = 1 / real width;
          percentLit = 0;
          offsets = [float2 (- dx) (- dx), float2 0 (- dx), float2 dx (- dx),
                     float2 (- dx) 0, float2 0 0, float2 dx 0,
                     float2 (- dx) dx, float2 0 dx, float2 dx dx];
          r = shadow_loop g (xy shadowPos) depth offsets 0 (percentLit, [])
      in (fst r / 9, snd r))"

definition hash :: "float2 \<Rightarrow> real" where
  "hash p = frac (10000 * sin (17 * x2 p + y2 p * (1/10)) * (1/10 + \<bar>sin (y2 p * 13 + x2 p)\<bar>))"

definition noise :: "float2 \<Rightarrow> real" where
  "noise v =
     (let i = floor2 v;
          f = frac2 v;
          a = hash i;
          b = hash (i + float2 1 0);
          c = hash (i + float2 0 1);
          d = hash (i + float2 1 1);
          u = f * f * float2 (3 - 2 * x2 f) (3 - 2 * y2 f)
      in lerp a b (x2 u) + (c - a) * y2 u * (1 - x2 u) + (d - b) * x2 u * y2 u)"

definition PS_texIndex :: "float2 \<Rightarrow> int" where
  "PS_texIndex gTex = ftoi (round_ne (x2 gTex))"

text \<open>The local normal of \<^verbatim>\<open>PS\<close>, from three normals of the height map.\<close>

definition PS_localNormal :: "Bindings \<Rightarrow> int \<Rightarrow> float2 \<Rightarrow> float3 \<times> lookup list" where
  "PS_localNormal g texIndex sTex =
     (let n1 = GetNormalFromHeight g (texIndex + 2) sTex 1;
          n2 = GetNormalFromHeight g (texIndex + 2) sTex 2;
          n3 = GetNormalFromHeight g (texIndex + 2) sTex 3;
          localNormal = (1/6) *\<^sub>R (3 *\<^sub>R fst n1 + 2 *\<^sub>R fst n2 + 1 *\<^sub>R fst n3)
      in (normalize3 localNormal, snd n1 @ snd n2 @ snd n3))"

text \<open>The normal of \<^verbatim>\<open>PS\<close>: the local normal in the basis \<^verbatim>\<open>TBN\<close>.\<close>

definition PS_normal :: "float3 \<Rightarrow> float3 \<Rightarrow> float3" where
  "PS_normal normCatPos localNormal =
     (let theta = polar_theta normCatPos;
          N = normCatPos;
          T = float3 (- sin theta) 0 (cos theta);
          B = cross N T;
          TBN = (normalize3 T, normalize3 B, normalize3 N)
      in normalize3 (mul3 localNormal TBN))"

definition PS :: "Bindings \<Rightarrow> DS_OUT \<Rightarrow> PS_OUTPUT \<times> lookup list" where
  "PS g input =
     (let normCatPos = normalize3 (catPos input);
          gTex = gTexCoord normCatPos;
          texIndex = PS_texIndex gTex;
          sTex = sTexCoord texIndex gTex;
          localNormal = PS_localNormal g texIndex sTex;
          normal = PS_normal normCatPos (fst localNormal);
          texColor = texSample g texIndex sTex;
          minusLight = - xyz (lightDirection (cb g));
          diffuse = saturate (dot3 normal minusLight) *\<^sub>R xyz (lightColor (cb g));
          ambient = float3 0.008 0.008 0.008 * xyz (lightColor (cb g));
          shadow = CalcShadowFactor g (mul (float4_of (catPos input) 1) (shadowTransform (cb g)));
          shadowFactor = fst shadow;
          shadowCorrector = lerp 0.75 1 (max (dot3 normCatPos minusLight) 0);
          noise1 = noise (10000 *\<^sub>R sTex);
          noise2 = noise (20000 *\<^sub>R sTex);
          h = distance3 (catPos input) (float3 0 0 0) - 150;
          lit = (saturate (shadowFactor + shadowCorrector) *\<^sub>R diffuse + ambient) * xyz texColor;
          rgb = saturate3 (lerp 0.98 1 h *\<^sub>R (lerp 0.92 1 noise2 *\<^sub>R (lerp 0.95 1 noise1 *\<^sub>R lit)));
          final = float4 (x3 rgb) (y3 rgb) (z3 rgb) 1
      in (PS_OUTPUT final,
          snd localNormal @ [Sample texIndex sTex] @ snd shadow))"

section \<open>The frame driver (Game.cpp)\<close>

text \<open>
  \<^verbatim>\<open>Game.cpp\<close> drives Direct3D 12 through calls on the device, the command list, the
  command queue and the fence. A run of one of its functions is the list of the calls
  it makes, in order, with how it ends: by returning or by throwing. The declarations
  of \<^verbatim>\<open>Game.h\<close> and the classes \<^verbatim>\<open>DX::StepTimer\<close> and \<^verbatim>\<open>DX::DeviceResources\<close>
  are read through the records \<open>Config\<close> and \<open>Env\<close> below.
\<close>

datatype exn = runtime_error | com_exception | std_exception

datatype outcome = Returned | Thrown exn

text \<open>The members of \<^verbatim>\<open>Game\<close> that hold a committed buffer.\<close>

datatype buffer = m_cbUploadHeap | m_vertexBuffer | m_indexBuffer

text \<open>
  A root parameter: a descriptor table with one range of shader resource views (the
  number of descriptors and the first register), or a root constant buffer view (its
  register).
\<close>

datatype root_parameter = DescriptorTable_SRV nat nat | ConstantBufferView nat

text \<open>
  The calls. \<open>SetGraphicsRootDescriptorTable p i\<close> binds the root parameter \<open>p\<close> to the
  descriptors of the heap from slot \<open>i\<close> on (the handle of the start of the heap is slot
  0); \<open>CreateShaderResourceView f i\<close> writes a view of the texture loaded from the file
  \<open>f\<close> into slot \<open>i\<close> of the heap; \<open>CreateCommittedResource b n\<close> creates the buffer
  of the member \<open>b\<close> with \<open>n\<close> bytes (a \<^verbatim>\<open>UINT64\<close>).
\<close>

datatype call =
    PIXBeginEvent string
  | PIXEndEvent
  | Keyboard_GetState
  | Mouse_GetState
  | ExitGame
  | SetEventOnCompletion "64 word"
  | WaitForSingleObjectEx
  | Prepare
  | OMSetRenderTargets
  | ClearRenderTargetView
  | ClearDepthStencilView
  | RSSetViewports
  | RSSetScissorRects
  | SetGraphicsRootSignature
  | SetPipelineState
  | SetDescriptorHeaps nat
  | SetGraphicsRootDescriptorTable nat nat
  | WriteConstants "32 word"
  | SetGraphicsRootConstantBufferView nat "64 word"
  | IASetPrimitiveTopology
  | IASetVertexBuffers
  | IASetIndexBuffer
  | DrawIndexedInstanced nat nat nat int nat
  | Present
  | Signal "64 word"
  | CheckFeatureSupport
  | GetDescriptorHandleIncrementSize
  | D3D12SerializeRootSignature "root_parameter list" nat
  | CreateRootSignature
  | CreateDescriptorHeap nat bool
  | ResourceUpload_Begin
  | CreateDDSTextureFromFile string
  | ResourceUpload_End
  | CreateShaderResourceView string nat
  | CreateCommittedResource buffer "64 word"
  | Resource_Map buffer
  | Resource_Unmap buffer
  | ReadData string
  | CreateGraphicsPipelineState
  | CreateQuadBox
  | WaitForGpu
  | CreateFence "64 word"

text \<open>
  A step of straight-line code: a call, and the exception thrown when the call fails
  (\<^verbatim>\<open>DX::ThrowIfFailed\<close>, or a \<^verbatim>\<open>throw\<close> behind a check of the result); \<open>None\<close> for
  a call whose result is not checked. Running the steps stops at the first failure.
\<close>

fun exec :: "(call \<Rightarrow> bool) \<Rightarrow> (call \<times> exn option) list \<Rightarrow> call list \<times> outcome" where
  "exec ok [] = ([], Returned)"
| "exec ok ((c, None) # steps) = (case exec ok steps of (calls, r) \<Rightarrow> (c # calls, r))"
| "exec ok ((c, Some e) # steps) =
     (if ok c then (case exec ok steps of (calls, r) \<Rightarrow> (c # calls, r)) else ([c], Thrown e))"

text \<open>
  The same for code that writes members between its calls: each step carries the
  writes that follow its call in the source, made once the call has succeeded. A run
  that throws keeps the writes made before the failing call.
\<close>

fun exec_writes ::
  "(call \<Rightarrow> bool) \<Rightarrow> (call \<times> exn option \<times> ('s \<Rightarrow> 's)) list \<Rightarrow> 's
     \<Rightarrow> (call list \<times> outcome) \<times> 's" where
  "exec_writes ok [] s = (([], Returned), s)"
| "exec_writes ok ((c, None, w) # steps) s =
     (case exec_writes ok steps (w s) of ((calls, r), s') \<Rightarrow> ((c # calls, r), s'))"
| "exec_writes ok ((c, Some e, w) # steps) s =
     (if ok c
      then (case exec_writes ok steps (w s) of ((calls, r), s') \<Rightarrow> ((c # calls, r), s'))
      else (([c], Thrown e), s))"

record StepTimer =
  elapsedSeconds :: real
  frameCount :: "32 word"

record KeyboardState =
  Escape :: bool
  key_W :: bool
  key_A :: bool
  key_S :: bool
  key_D :: bool

record MouseState =
  mouse_x :: int
  mouse_y :: int

text \<open>
  The constants and the DirectXMath functions that \<^verbatim>\<open>Game.cpp\<close> uses and does not
  define.
\<close>

record Config =
  c_numDrawCalls :: "32 word"
  sizeof_PaddedConstantBuffer :: nat
  sizeof_VertexPositionNormalTexture :: nat
  DEFAULT_FORWARD_VECTOR :: float4
  DEFAULT_RIGHT_VECTOR :: float4
  DEFAULT_UP_VECTOR :: float4
  XMMatrixRotationRollPitchYaw :: "real \<Rightarrow> real \<Rightarrow> real \<Rightarrow> float4x4"
  XMVector3TransformCoord :: "float4 \<Rightarrow> float4x4 \<Rightarrow> float4"
  XMVector3Normalize :: "float4 \<Rightarrow> float4"
  XMMatrixLookAtLH :: "float4 \<Rightarrow> float4 \<Rightarrow> float4 \<Rightarrow> float4x4"
  XMMatrixIdentity :: float4x4

text \<open>
  What the platform answers during one call of a function of \<^verbatim>\<open>Game\<close>: the input
  devices, \<^verbatim>\<open>DX::DeviceResources\<close>, the fence, whether a call that can fail succeeds,
  the mesh of \<^verbatim>\<open>GeometryGenerator::CreateQuadBox\<close> (the numbers of its vertices and of
  its indices, as \<^verbatim>\<open>size_t\<close>), and what \<^verbatim>\<open>m_timer.Tick\<close> does: the states of the timer at each call
  of the update function, and the state it leaves.
\<close>

record Env =
  keyboard :: KeyboardState
  mouse :: MouseState
  GetCurrentFrameIndex :: "32 word"
  GetBackBufferCount :: "32 word"
  GetCompletedValue :: "64 word"
  GetGPUVirtualAddress :: "buffer \<Rightarrow> 64 word"
  succeeds :: "call \<Rightarrow> bool"
  quadBox_vertices :: "64 word"
  quadBox_indices :: "64 word"
  StepTimer_Tick :: "StepTimer \<Rightarrow> StepTimer list \<times> StepTimer"

record Game =
  m_timer :: StepTimer
  m_camYaw :: real
  m_camPitch :: real
  m_camPosition :: float4
  m_camLookTarget :: float4
  m_camRight :: float4
  m_camUp :: float4
  m_camForward :: float4
  m_camRotationMatrix :: float4x4
  m_viewMatrix :: float4x4
  m_worldMatrix :: float4x4
  m_projectionMatrix :: float4x4
  m_indexCount :: nat
  m_cbGpuAddress :: "64 word"

subsection \<open>Update\<close>

definition Update :: "Config \<Rightarrow> Env \<Rightarrow> StepTimer \<Rightarrow> Game \<Rightarrow> call list \<times> Game" where
  "Update cfg env timer game =
     (let elapsedTime = elapsedSeconds timer;
          moveSpeed = 5;
          verticalMove = (if key_W (keyboard env) then 1 else if key_S (keyboard env) then - 1 else 0)
                           * elapsedTime * moveSpeed;
          horizontalMove = (if key_A (keyboard env) then - 1 else if key_D (keyboard env) then 1 else 0)
                             * elapsedTime * moveSpeed;
          camYaw = m_camYaw game + real_of_int (mouse_x (mouse env)) * elapsedTime / 10;
          camPitch = m_camPitch game + real_of_int (mouse_y (mouse env)) * elapsedTime / 10;
          camRotationMatrix = XMMatrixRotationRollPitchYaw cfg camPitch camYaw 0;
          camLookTarget = XMVector3TransformCoord cfg (DEFAULT_FORWARD_VECTOR cfg) camRotationMatrix;
          camLookTarget = XMVector3Normalize cfg camLookTarget;
          camRight = XMVector3TransformCoord cfg (DEFAULT_RIGHT_VECTOR cfg) camRotationMatrix;
          camUp = XMVector3TransformCoord cfg (DEFAULT_UP_VECTOR cfg) camRotationMatrix;
          camForward = XMVector3TransformCoord cfg (DEFAULT_FORWARD_VECTOR cfg) camRotationMatrix;
          camPosition = m_camPosition game + horizontalMove *\<^sub>R camRight;
          camPosition = camPosition + verticalMove *\<^sub>R camForward;
          camLookTarget = camPosition + camLookTarget;
          viewMatrix = XMMatrixLookAtLH cfg camPosition camLookTarget camUp
      in ([PIXBeginEvent ''Update'', Keyboard_GetState]
            @ (if Escape (keyboard env) then [ExitGame] else [])
            @ [Mouse_GetState, PIXEndEvent],
          game \<lparr> m_camYaw := camYaw, m_camPitch := camPitch,
                 m_camRotationMatrix := camRotationMatrix, m_camLookTarget := camLookTarget,
                 m_camRight := camRight, m_camUp := camUp, m_camForward := camForward,
                 m_camPosition := camPosition, m_viewMatrix := viewMatrix \<rparr>))"

subsection \<open>Render\<close>

definition Clear :: "(call \<times> exn option) list" where
  "Clear = [(PIXBeginEvent ''Clear'', None), (OMSetRenderTargets, None),
            (ClearRenderTargetView, None), (ClearDepthStencilView, None),
            (RSSetViewports, None), (RSSetScissorRects, None), (PIXEndEvent, None)]"

text \<open>
  \<^verbatim>\<open>frameIdx\<close> and \<^verbatim>\<open>numBackBuffers\<close> are \<^verbatim>\<open>int\<close>, \<^verbatim>\<open>completedValue\<close> is
  \<^verbatim>\<open>uint64_t\<close>: in the comparisons the two \<^verbatim>\<open>int\<close> are converted to \<^verbatim>\<open>uint64_t\<close>
  (\<open>scast\<close>), and the comparisons and the subtraction are unsigned, on 64 bits.
  \<^verbatim>\<open>frameIdx % numBackBuffers\<close> is the signed remainder; C++ leaves it undefined for a
  back-buffer count of zero.
\<close>

definition Render :: "Config \<Rightarrow> Env \<Rightarrow> Game \<Rightarrow> call list \<times> outcome" where
  "Render cfg env game =
     (if frameCount (m_timer game) = 0 then ([], Returned)
      else
        let frameIdx = GetCurrentFrameIndex env;
            numBackBuffers = GetBackBufferCount env;
            completedValue = GetCompletedValue env;
            wait = (if completedValue < scast frameIdx
                       \<and> scast numBackBuffers < scast frameIdx - completedValue
                    then [(SetEventOnCompletion (scast (frameIdx - numBackBuffers)), Some com_exception),
                          (WaitForSingleObjectEx, None)]
                    else []);
            cbIndex = c_numDrawCalls cfg * word_of_int (sint frameIdx smod sint numBackBuffers);
            baseGpuAddress = m_cbGpuAddress game
                               + of_nat (sizeof_PaddedConstantBuffer cfg) * ucast cbIndex
        in exec (succeeds env)
             (wait
              @ [(Prepare, None)]
              @ Clear
              @ [(PIXBeginEvent ''Render'', None),
                 (SetGraphicsRootSignature, None),
                 (SetPipelineState, None),
                 (SetDescriptorHeaps 1, None),
                 (SetGraphicsRootDescriptorTable 0 0, None),
                 (WriteConstants cbIndex, None),
                 (SetGraphicsRootConstantBufferView 1 baseGpuAddress, None),
                 (IASetPrimitiveTopology, None),
                 (IASetVertexBuffers, None),
                 (IASetIndexBuffer, None),
                 (DrawIndexedInstanced (m_indexCount game) 1 0 0 0, None),
                 (PIXEndEvent, None),
                 (PIXBeginEvent ''Present'', None),
                 (Present, None),
                 (Signal (scast frameIdx), None),
                 (PIXEndEvent, None)]))"

subsection \<open>Tick\<close>

text \<open>
  \<^verbatim>\<open>m_timer.Tick\<close> calls the update function, \<^verbatim>\<open>Update(m_timer)\<close>, once for each
  state of the timer in the list.
\<close>

fun run_updates :: "Config \<Rightarrow> Env \<Rightarrow> StepTimer list \<Rightarrow> Game \<Rightarrow> call list \<times> Game" where
  "run_updates cfg env [] game = ([], game)"
| "run_updates cfg env (timer # timers) game =
     (let u = Update cfg env timer (game \<lparr> m_timer := timer \<rparr>);
          r = run_updates cfg env timers (snd u)
      in (fst u @ fst r, snd r))"

definition Tick :: "Config \<Rightarrow> Env \<Rightarrow> Game \<Rightarrow> (call list \<times> outcome) \<times> Game" where
  "Tick cfg env game =
     (let t = StepTimer_Tick env (m_timer game);
          u = run_updates cfg env (fst t) game;
          game = (snd u) \<lparr> m_timer := snd t \<rparr>;
          r = Render cfg env game
      in ((fst u @ fst r, snd r), game))"

subsection \<open>Resources that depend on the device\<close>

text \<open>
  The sizes, as the source computes them. \<^verbatim>\<open>cbSize\<close> is a \<^verbatim>\<open>size_t\<close>: the product
  of \<^verbatim>\<open>c_numDrawCalls\<close> and the back-buffer count is taken on 32 bits, unsigned, and
  then multiplied by \<^verbatim>\<open>sizeof(PaddedConstantBuffer)\<close> on 64 bits.
  \<^verbatim>\<open>vertexBufferSize\<close> and \<^verbatim>\<open>indexBufferSize\<close> are \<^verbatim>\<open>int\<close>: a product on 64 bits,
  cut to 32 bits, and converted to the \<^verbatim>\<open>UINT64\<close> width of the buffer with its sign.
  The type of \<^verbatim>\<open>m_indexCount\<close> is declared in \<^verbatim>\<open>Game.h\<close>; the model keeps the whole
  number of indices.
\<close>

definition cbSize :: "Config \<Rightarrow> Env \<Rightarrow> 64 word" where
  "cbSize cfg env =
     ucast (c_numDrawCalls cfg * GetBackBufferCount env) * of_nat (sizeof_PaddedConstantBuffer cfg)"

definition vertexBufferSize :: "Config \<Rightarrow> Env \<Rightarrow> 32 word" where
  "vertexBufferSize cfg env =
     ucast (of_nat (sizeof_VertexPositionNormalTexture cfg) * quadBox_vertices env)"

definition indexBufferSize :: "Env \<Rightarrow> 32 word" where
  "indexBufferSize env = ucast (2 * quadBox_indices env)"

text \<open>The values of the camera, written after the fence has been created.\<close>

definition init_camera :: "Config \<Rightarrow> Game \<Rightarrow> Game" where
  "init_camera cfg game =
     (let camPosition = float4 0 0 200 0;
          camLookTarget = float4 0 0 0 0
      in game \<lparr> m_camUp := DEFAULT_UP_VECTOR cfg,
                 m_camForward := DEFAULT_FORWARD_VECTOR cfg,
                 m_camRight := DEFAULT_RIGHT_VECTOR cfg,
                 m_camYaw := - 3,
                 m_camPitch := 0.37,
                 m_worldMatrix := XMMatrixIdentity cfg,
                 m_camPosition := camPosition,
                 m_camLookTarget := camLookTarget,
                 m_viewMatrix := XMMatrixLookAtLH cfg camPosition camLookTarget (DEFAULT_UP_VECTOR cfg) \<rparr>)"

definition CreateDeviceDependentResources :: "Config \<Rightarrow> Env \<Rightarrow> Game \<Rightarrow> (call list \<times> outcome) \<times> Game" where
  "CreateDeviceDependentResources cfg env game =
     exec_writes (succeeds env)
       [(CheckFeatureSupport, Some runtime_error, id),
        (GetDescriptorHandleIncrementSize, None, id),
        (D3D12SerializeRootSignature [DescriptorTable_SRV 2 0, ConstantBufferView 0] 1,
           Some com_exception, id),
        (CreateRootSignature, Some com_exception, id),
        (CreateDescriptorHeap 2 True, Some com_exception, id),
        (ResourceUpload_Begin, None, id),
        (CreateDDSTextureFromFile ''colormap.dds'', Some com_exception, id),
        (ResourceUpload_End, None, id),
        (ResourceUpload_Begin, None, id),
        (CreateDDSTextureFromFile ''displacement.dds'', Some com_exception, id),
        (ResourceUpload_End, None, id),
        (CreateShaderResourceView ''colormap.dds'' 0, None, id),
        (CreateShaderResourceView ''displacement.dds'' 1, None, id),
        (CreateCommittedResource m_cbUploadHeap (cbSize cfg env), Some com_exception, id),
        (Resource_Map m_cbUploadHeap, Some com_exception,
           \<lambda>g. g \<lparr> m_cbGpuAddress := GetGPUVirtualAddress env m_cbUploadHeap \<rparr>),
        (ReadData ''VertexShader.cso'', Some std_exception, id),
        (ReadData ''HullShader.cso'', Some std_exception, id),
        (ReadData ''DomainShader.cso'', Some std_exception, id),
        (ReadData ''PixelShader.cso'', Some std_exception, id),
        (CreateGraphicsPipelineState, Some com_exception, id),
        (CreateQuadBox, None, \<lambda>g. g \<lparr> m_indexCount := unat (quadBox_indices env) \<rparr>),
        (CreateCommittedResource m_vertexBuffer (scast (vertexBufferSize cfg env)), Some com_exception, id),
        (Resource_Map m_vertexBuffer, Some com_exception, id),
        (Resource_Unmap m_vertexBuffer, None, id),
        (CreateCommittedResource m_indexBuffer (scast (indexBufferSize env)), Some com_exception, id),
        (Resource_Map m_indexBuffer, Some com_exception, id),
        (Resource_Unmap m_indexBuffer, None, id),
        (WaitForGpu, None, id),
        (CreateFence (ucast (GetCurrentFrameIndex env)), Some com_exception, init_camera cfg)]
       game"

subsection \<open>Kinds of calls\<close>

text \<open>Predicates that select the calls of one kind from a run.\<close>

definition is_DrawIndexedInstanced :: "call \<Rightarrow> bool" where
  "is_DrawIndexedInstanced c = (case c of DrawIndexedInstanced n i s b t \<Rightarrow> True | _ \<Rightarrow> False)"

definition is_SetEventOnCompletion :: "call \<Rightarrow> bool" where
  "is_SetEventOnCompletion c = (case c of SetEventOnCompletion v \<Rightarrow> True | _ \<Rightarrow> False)"

definition is_SetGraphicsRootConstantBufferView :: "call \<Rightarrow> bool" where
  "is_SetGraphicsRootConstantBufferView c =
     (case c of SetGraphicsRootConstantBufferView i a \<Rightarrow> True | _ \<Rightarrow> False)"

definition is_SetGraphicsRootDescriptorTable :: "call \<Rightarrow> bool" where
  "is_SetGraphicsRootDescriptorTable c =
     (case c of SetGraphicsRootDescriptorTable p i \<Rightarrow> True | _ \<Rightarrow> False)"

definition is_D3D12SerializeRootSignature :: "call \<Rightarrow> bool" where
  "is_D3D12SerializeRootSignature c =
     (case c of D3D12SerializeRootSignature ps n \<Rightarrow> True | _ \<Rightarrow> False)"

definition is_CreateCommittedResource :: "call \<Rightarrow> bool" where
  "is_CreateCommittedResource c = (case c of CreateCommittedResource b n \<Rightarrow> True | _ \<Rightarrow> False)"

text \<open>The calls that create an object of the device, or a view in the descriptor heap.\<close>

definition is_creation :: "call \<Rightarrow> bool" where
  "is_creation c =
     (case c of
        CreateRootSignature \<Rightarrow> True
      | CreateDescriptorHeap n v \<Rightarrow> True
      | CreateDDSTextureFromFile f \<Rightarrow> True
      | CreateShaderResourceView f i \<Rightarrow> True
      | CreateCommittedResource b n \<Rightarrow> True
      | CreateGraphicsPipelineState \<Rightarrow> True
      | CreateFence v \<Rightarrow> True
      | _ \<Rightarrow> False)"

text \<open>
  The view that a slot of the descriptor heap holds after a run of calls: the file of
  the last \<open>CreateShaderResourceView\<close> into that slot.
\<close>

fun srv_in_slot :: "call list \<Rightarrow> nat \<Rightarrow> string option" where
  "srv_in_slot [] slot = None"
| "srv_in_slot (c # calls) slot =
     (case srv_in_slot calls slot of
        Some f \<Rightarrow> Some f
      | None \<Rightarrow> (case c of
                  CreateShaderResourceView f i \<Rightarrow> (if i = slot then Some f else None)
                | _ \<Rightarrow> None))"

text \<open>
  The objects that the specification lists for the setup: one root signature, one
  pipeline state object, one descriptor heap with two views, two textures, one vertex
  buffer, one index buffer and one ring of constant buffers.
\<close>

definition spec_created :: "Config \<Rightarrow> Env \<Rightarrow> call list" where
  "spec_created cfg env =
     [CreateRootSignature, CreateGraphicsPipelineState, CreateDescriptorHeap 2 True,
      CreateShaderResourceView ''colormap.dds'' 0, CreateShaderResourceView ''displacement.dds'' 1,
      CreateDDSTextureFromFile ''colormap.dds'', CreateDDSTextureFromFile ''displacement.dds'',
      CreateCommittedResource m_vertexBuffer (scast (vertexBufferSize cfg env)),
      CreateCommittedResource m_indexBuffer (scast (indexBufferSize env)),
      CreateCommittedResource m_cbUploadHeap (cbSize cfg env)]"

section \<open>The tessellation factor as the specification words it\<close>

text \<open>
  The distance-based formula of the specification, \<open>2^(-8 * sqrt(saturate((d - 20)/(150 - 20))) + 8)\<close>,
  and the edge midpoint as the specification words it: the midpoint of two control
  points, each projected to the sphere of radius 150.
\<close>

definition tess_formula :: "real \<Rightarrow> real" where
  "tess_formula d = 2 powr (- 8 * sqrt (saturate ((d - 20) / (150 - 20))) + 8)"

definition project150 :: "float3 \<Rightarrow> float3" where
  "project150 v = 150 *\<^sub>R normalize3 v"

definition spec_edge_midpoint :: "VS_OUTPUT \<Rightarrow> VS_OUTPUT \<Rightarrow> float3" where
  "spec_edge_midpoint a b =
     (1/2) *\<^sub>R (project150 (xyz (vs_position a)) + project150 (xyz (vs_position b)))"

section \<open>Concrete inputs\<close>

definition identity4x4 :: float4x4 where
  "identity4x4 = float4x4 (float4 1 0 0 0) (float4 0 1 0 0) (float4 0 0 1 0) (float4 0 0 0 1)"

text \<open>
  A camera 20 units above the surface of the sphere, an identity world matrix, and
  textures that read 0 everywhere.
\<close>

definition near_camera :: Bindings where
  "near_camera =
     \<lparr> cb = \<lparr> worldMatrix = identity4x4, viewProjMatrix = identity4x4,
               cameraPosition = float4 170 0 0 0, lightDirection = float4 0 0 1 0,
               lightColor = float4 1 1 1 1, shadowTransform = identity4x4, shadowBias = 0 \<rparr>,
       texSample = (\<lambda>i c. float4 0 0 0 0),
       texSampleLevel = (\<lambda>i c l. float4 0 0 0 0),
       texSampleCmpLevelZero = (\<lambda>i c d. 0),
       texWidth = (\<lambda>i. 1) \<rparr>"

text \<open>
  A patch on the face \<open>x = 150\<close> of the cube. The vertex buffer holds three
  components for each position, so the input assembler sets \<open>w = 1\<close>.
\<close>

definition face_patch :: "VS_OUTPUT array4" where
  "face_patch = array4 (VS (VS_INPUT (float4 150 0 (- 80) 1))) (VS (VS_INPUT (float4 150 100 (- 80) 1)))
                       (VS (VS_INPUT (float4 150 0 80 1))) (VS (VS_INPUT (float4 150 100 80 1)))"

definition face_out :: "HS_OUT array4" where
  "face_out = array4 (HS face_patch 0 0) (HS face_patch 1 0) (HS face_patch 2 0) (HS face_patch 3 0)"

definition tess4 :: PatchTess where
  "tess4 = \<lparr> edgeTess = array4 4 4 4 4, insideTess = array2 4 4 \<rparr>"

section \<open>The shadow factor as the specification words it\<close>

text \<open>
  The 3x3 grid of one-texel offsets, and the shadow factor of the specification: the
  mean of nine comparison samples taken at the projected shadow position moved by each
  offset of the grid, each compared against the depth minus the bias.
\<close>

definition grid3x3 :: "real \<Rightarrow> float2 list" where
  "grid3x3 dx = [float2 (- dx) (- dx), float2 0 (- dx), float2 dx (- dx),
                 float2 (- dx) 0, float2 0 0, float2 dx 0,
                 float2 (- dx) dx, float2 0 dx, float2 dx dx]"

definition spec_shadow_factor :: "Bindings \<Rightarrow> float4 \<Rightarrow> real" where
  "spec_shadow_factor g shadowPosH =
     (let pos = float2 (x4 shadowPosH / w4 shadowPosH) (y4 shadowPosH / w4 shadowPosH);
          depth = z4 shadowPosH / w4 shadowPosH - shadowBias (cb g);
          dx = 1 / real (texWidth g 4)
      in sum_list (map (\<lambda>offset. texSampleCmpLevelZero g 4 (pos + offset) depth) (grid3x3 dx)) / 9)"

text \<open>
  A shadow map 1024 texels wide whose comparison yields 1 at the coordinates with
  \<open>x \<le> 1\<close> and 0 beyond.
\<close>

definition lit_inside :: Bindings where
  "lit_inside = near_camera \<lparr> texSampleCmpLevelZero := (\<lambda>i c d. if x2 c \<le> 1 then 1 else 0),
                                 texWidth := (\<lambda>i. 1024) \<rparr>"

section \<open>Concrete runs of the frame driver\<close>

definition sample_config :: Config where
  "sample_config =
     \<lparr> c_numDrawCalls = 1, sizeof_PaddedConstantBuffer = 256,
       sizeof_VertexPositionNormalTexture = 32,
       DEFAULT_FORWARD_VECTOR = float4 0 0 1 0,
       DEFAULT_RIGHT_VECTOR = float4 1 0 0 0,
       DEFAULT_UP_VECTOR = float4 0 1 0 0,
       XMMatrixRotationRollPitchYaw = (\<lambda>pitch yaw roll. identity4x4),
       XMVector3TransformCoord = (\<lambda>v M. mul v M),
       XMVector3Normalize = (\<lambda>v. v),
       XMMatrixLookAtLH = (\<lambda>eye focus up. identity4x4),
       XMMatrixIdentity = identity4x4 \<rparr>"

text \<open>
  A timer in variable-step mode: one call of the update function in each tick, and a
  frame count that grows by one.
\<close>

definition variable_step :: "StepTimer \<Rightarrow> StepTimer list \<times> StepTimer" where
  "variable_step t =
     ([t \<lparr> elapsedSeconds := 1 / 60 \<rparr>],
      t \<lparr> elapsedSeconds := 1 / 60, frameCount := frameCount t + 1 \<rparr>)"

text \<open>The GPU has completed frame 1, the frame index is 5, and there are 2 back buffers.\<close>

definition lagging_env :: Env where
  "lagging_env =
     \<lparr> keyboard = \<lparr> Escape = False, key_W = True, key_A = False, key_S = False, key_D = False \<rparr>,
       mouse = \<lparr> mouse_x = 3, mouse_y = - 2 \<rparr>,
       GetCurrentFrameIndex = 5, GetBackBufferCount = 2, GetCompletedValue = 1,
       GetGPUVirtualAddress = (\<lambda>b. 4096),
       succeeds = (\<lambda>c. True),
       quadBox_vertices = 24, quadBox_indices = 24,
       StepTimer_Tick = variable_step \<rparr>"

definition new_game :: Game where
  "new_game =
     \<lparr> m_timer = \<lparr> elapsedSeconds = 0, frameCount = 0 \<rparr>,
       m_camYaw = - 3, m_camPitch = 0.37,
       m_camPosition = float4 0 0 200 0, m_camLookTarget = float4 0 0 0 0,
       m_camRight = float4 1 0 0 0, m_camUp = float4 0 1 0 0, m_camForward = float4 0 0 1 0,
       m_camRotationMatrix = identity4x4, m_viewMatrix = identity4x4,
       m_worldMatrix = identity4x4, m_projectionMatrix = identity4x4,
       m_indexCount = 24, m_cbGpuAddress = 4096 \<rparr>"

text \<open>The game after its first tick.\<close>

definition running_game :: Game where
  "running_game = new_game \<lparr> m_timer := \<lparr> elapsedSeconds = 1 / 60, frameCount = 1 \<rparr> \<rparr>"

section \<open>Properties of the intrinsics\<close>

lemma saturate_range: "0 \<le> saturate v \<and> saturate v \<le> 1"
  by (simp add: saturate_def)

lemma pow_half_sqrt: "0 \<le> s \<Longrightarrow> pow s (1/2) = sqrt s"
  by (simp add: pow_def powr_half_sqrt)

lemma pow2_range: "0 \<le> e \<Longrightarrow> e \<le> 8 \<Longrightarrow> 1 \<le> pow 2 e \<and> pow 2 e \<le> 256"
proof -
  assume e: "0 \<le> e" "e \<le> 8"
  have "(2::real) powr 0 \<le> 2 powr e" using e by (intro powr_mono) auto
  moreover have "(2::real) powr e \<le> 2 powr 8" using e by (intro powr_mono) auto
  moreover have "(2::real) powr 8 = 256"
    using powr_realpow[of "2::real" 8] by simp
  ultimately show ?thesis by (simp add: pow_def)
qed

lemma atan2_bounds: "- pi < atan2 y x \<and> atan2 y x \<le> pi"
proof -
  have a: "- (pi / 2) < arctan (y / x)" "arctan (y / x) < pi / 2"
    by (rule arctan_lbound, rule arctan_ubound)
  have neg: "y / x \<le> 0" if "x < 0" "0 \<le> y"
    using that by (simp add: divide_nonneg_neg)
  have pos: "0 < y / x" if "x < 0" "y < 0"
    using that by (simp add: divide_neg_neg)
  have b: "arctan (y / x) \<le> 0" if "x < 0" "0 \<le> y"
    using neg[OF that] arctan_monotone'[of "y / x" 0] by simp
  have c: "0 < arctan (y / x)" if "x < 0" "y < 0"
    using pos[OF that] arctan_monotone[of 0 "y / x"] by simp
  show ?thesis
    using a b c pi_gt_zero by (auto simp: atan2_def)
qed

lemma round_ne_unit: "0 \<le> v \<Longrightarrow> v < 1 \<Longrightarrow> round_ne v = 0 \<or> round_ne v = 1"
proof -
  assume "0 \<le> v" "v < 1"
  then have "\<lfloor>v\<rfloor> = 0" by linarith
  then show ?thesis by (simp add: round_ne_def Let_def)
qed

lemma length3_scale: "length3 (s *\<^sub>R v) = \<bar>s\<bar> * length3 v"
proof -
  have "(s * x3 v)\<^sup>2 + (s * y3 v)\<^sup>2 + (s * z3 v)\<^sup>2 = s\<^sup>2 * ((x3 v)\<^sup>2 + (y3 v)\<^sup>2 + (z3 v)\<^sup>2)"
    by (simp add: power_mult_distrib distrib_left)
  then show ?thesis
    by (simp add: length3_def dot3_def scaleR_float3_def real_sqrt_mult flip: power2_eq_square)
qed

lemma length3_zero_iff: "length3 v = 0 \<longleftrightarrow> v = float3 0 0 0"
  by (cases v) (simp add: length3_def dot3_def add_nonneg_eq_0_iff)

lemma length3_normalize3: "v \<noteq> float3 0 0 0 \<Longrightarrow> length3 (normalize3 v) = 1"
proof -
  assume "v \<noteq> float3 0 0 0"
  then have "length3 v \<noteq> 0" by (simp add: length3_zero_iff)
  moreover have "0 \<le> length3 v" by (simp add: length3_def dot3_def)
  ultimately show ?thesis by (simp add: normalize3_def length3_scale)
qed

section \<open>Properties of the hull shader\<close>

lemma CalcTessFactor_formula:
  "CalcTessFactor g p = tess_formula (distance3 p (xyz (cameraPosition (cb g))))"
proof -
  have "0 \<le> saturate ((distance3 p (xyz (cameraPosition (cb g))) - near) / (far - near))"
    using saturate_range by simp
  from pow_half_sqrt[OF this] show ?thesis
    by (simp add: CalcTessFactor_def tess_formula_def Let_def near_def far_def pow_def)
qed

lemma CalcTessFactor_range: "1 \<le> CalcTessFactor g p \<and> CalcTessFactor g p \<le> 256"
proof -
  define s where "s = saturate ((distance3 p (xyz (cameraPosition (cb g))) - near) / (far - near))"
  have s: "0 \<le> s" "s \<le> 1" using saturate_range by (simp_all add: s_def)
  have h: "0 \<le> pow s (1/2)" "pow s (1/2) \<le> 1" using s by (simp_all add: pow_half_sqrt)
  have "0 \<le> - 8 * pow s (1/2) + 8" "- 8 * pow s (1/2) + 8 \<le> 8" using h by simp_all
  from pow2_range[OF this] show ?thesis
    by (simp add: CalcTessFactor_def Let_def s_def)
qed

lemma DS_level_range: "1 \<le> t \<Longrightarrow> t \<le> 256 \<Longrightarrow> 0 \<le> DS_level t \<and> DS_level t \<le> 4"
proof -
  assume t: "1 \<le> t" "t \<le> 256"
  have "sqrt 1 \<le> sqrt t" using t by (simp del: real_sqrt_one)
  then have "1 \<le> sqrt t" by simp
  then show ?thesis by (simp add: DS_level_def)
qed

text \<open>
  C10. For every point \<open>p\<close>, \<open>CalcTessFactor\<close> returns a value in \<open>[1, 256]\<close>, and for
  such a tessellation factor the level of detail that the domain shader computes,
  \<open>max(0, 8 - sqrt(tess) - 3)\<close>, lies in \<open>[0, 4]\<close>.
\<close>

theorem CalcTessFactor_bounds:
  "1 \<le> CalcTessFactor g p \<and> CalcTessFactor g p \<le> 256 \<and>
   0 \<le> DS_level (CalcTessFactor g p) \<and> DS_level (CalcTessFactor g p) \<le> 4"
  using CalcTessFactor_range[of g p] DS_level_range[of "CalcTessFactor g p"] by simp

text \<open>
  What \<open>ConstantHS\<close> computes: every factor is the formula at a distance from the
  camera, and the two inside factors are equal. The edge points are the midpoints of
  \<open>150 * normalize(patch[i].position)\<close>, where \<open>normalize\<close> acts on the \<open>float4\<close>.
\<close>

lemma ConstantHS_factors:
  fixes g patch patchID
  defines "cam \<equiv> xyz (cameraPosition (cb g))"
  defines "q \<equiv> (\<lambda>i. xyz (150 *\<^sub>R normalize4 (vs_position (at4 patch i))))"
  defines "localPos \<equiv> xyz ((1/4) *\<^sub>R (vs_position (at4 patch 0) + vs_position (at4 patch 1)
                                 + vs_position (at4 patch 2) + vs_position (at4 patch 3)))"
  defines "c \<equiv> 150 *\<^sub>R normalize3 (xyz (mul (float4_of localPos 1) (worldMatrix (cb g))))"
  shows "ConstantHS g patch patchID =
     \<lparr> edgeTess = array4 (tess_formula (distance3 ((1/2) *\<^sub>R (q 0 + q 2)) cam))
                          (tess_formula (distance3 ((1/2) *\<^sub>R (q 0 + q 1)) cam))
                          (tess_formula (distance3 ((1/2) *\<^sub>R (q 1 + q 3)) cam))
                          (tess_formula (distance3 ((1/2) *\<^sub>R (q 2 + q 3)) cam)),
       insideTess = array2 (tess_formula (distance3 c cam)) (tess_formula (distance3 c cam)) \<rparr>"
  unfolding cam_def q_def localPos_def c_def
  by (simp add: ConstantHS_def Let_def CalcTessFactor_formula)

text \<open>Where \<open>w = 0\<close>, the point of the code is the projection to the sphere.\<close>

lemma normalize4_w0:
  "w4 v = 0 \<Longrightarrow> xyz (150 *\<^sub>R normalize4 v) = project150 (xyz v)"
  by (simp add: project150_def normalize4_def normalize3_def length4_def length3_def dot4_def dot3_def
      xyz_def scaleR_float4_def scaleR_float3_def)

lemma tess_formula_strict:
  assumes "20 \<le> d1" "d1 < d2" "d2 \<le> 150"
  shows "tess_formula d2 < tess_formula d1"
proof -
  have s: "saturate ((d1 - 20) / (150 - 20)) < saturate ((d2 - 20) / (150 - 20))"
    using assms by (simp add: saturate_def min_def max_def divide_simps)
  have "sqrt (saturate ((d1 - 20) / (150 - 20))) < sqrt (saturate ((d2 - 20) / (150 - 20)))"
    using s by simp
  then have "- 8 * sqrt (saturate ((d2 - 20) / (150 - 20))) + 8
             < - 8 * sqrt (saturate ((d1 - 20) / (150 - 20))) + 8"
    by simp
  then show ?thesis unfolding tess_formula_def by (intro powr_less_mono) auto
qed

lemma sqrt_28901: "170 < sqrt 28901 \<and> sqrt 28901 \<le> 1125"
proof
  show "170 < sqrt 28901" by (rule real_less_rsqrt) simp
  show "sqrt 28901 \<le> 1125" by (rule real_le_lsqrt) simp_all
qed

lemma face_patch_edge0:
  "at4 (edgeTess (ConstantHS near_camera face_patch 0)) 0 = tess_formula (170 - 22500 / sqrt 28901)"
proof -
  have "22500 / sqrt 28901 < 170" using sqrt_28901 by (simp add: divide_simps)
  then have a: "\<bar>22500 / sqrt 28901 - 170\<bar> = 170 - 22500 / sqrt 28901" by simp
  show ?thesis
    by (simp add: ConstantHS_def Let_def CalcTessFactor_formula face_patch_def VS_def near_camera_def
        normalize4_def length4_def dot4_def xyz_def scaleR_float4_def plus_float3_def scaleR_float3_def
        distance3_def length3_def dot3_def minus_float3_def a flip: power2_eq_square)
qed

lemma face_patch_spec_edge0:
  "distance3 (spec_edge_midpoint (at4 face_patch 0) (at4 face_patch 2))
     (xyz (cameraPosition (cb near_camera))) = 640 / 17"
proof -
  have "sqrt 28900 = 170" by (rule real_sqrt_unique) simp_all
  then show ?thesis
    by (simp add: spec_edge_midpoint_def project150_def face_patch_def VS_def near_camera_def
        normalize3_def xyz_def plus_float3_def scaleR_float3_def
        distance3_def length3_def dot3_def minus_float3_def flip: power2_eq_square)
qed

text \<open>
  C1. On the patch \<open>face_patch\<close>, seen from \<open>near_camera\<close>, the first edge factor of
  \<open>ConstantHS\<close> is the formula at the distance \<open>170 - 22500 / sqrt 28901\<close>, and it is
  smaller than the formula at the distance \<open>640 / 17\<close> from the camera to the midpoint of
  the two control points projected to the sphere of radius 150.
\<close>

theorem ConstantHS_edge_off_sphere:
  "at4 (edgeTess (ConstantHS near_camera face_patch 0)) 0 = tess_formula (170 - 22500 / sqrt 28901) \<and>
   tess_formula (distance3 (spec_edge_midpoint (at4 face_patch 0) (at4 face_patch 2))
                   (xyz (cameraPosition (cb near_camera)))) = tess_formula (640 / 17) \<and>
   tess_formula (170 - 22500 / sqrt 28901) < tess_formula (640 / 17)"
proof -
  have a: "22500 / sqrt 28901 < 22500 / 170" "20 \<le> 22500 / sqrt 28901"
    using sqrt_28901 by (simp_all add: divide_simps)
  have "tess_formula (170 - 22500 / sqrt 28901) < tess_formula (640 / 17)"
    using a by (intro tess_formula_strict) simp_all
  then show ?thesis
    by (simp add: face_patch_edge0 face_patch_spec_edge0)
qed

section \<open>Properties of the domain shader\<close>

lemma polar_theta_range: "0 \<le> polar_theta n \<and> polar_theta n < 2 * PI"
proof -
  have b: "- pi < atan2 (z3 n) (x3 n)" "atan2 (z3 n) (x3 n) \<le> pi"
    using atan2_bounds by simp_all
  have p: "pi < 2 * PI" using pi_less_4 by (simp add: PI_def)
  show ?thesis
    using b p by (auto simp: polar_theta_def Let_def sign_def PI_def)
qed

lemma gTexCoord_x_range: "0 \<le> x2 (gTexCoord n) \<and> x2 (gTexCoord n) < 1"
  using polar_theta_range[of n] by (simp add: gTexCoord_def PI_def divide_simps)

lemma DS_texIndex_range: "DS_texIndex (gTexCoord n) = 2 \<or> DS_texIndex (gTexCoord n) = 3"
  using round_ne_unit[of "x2 (gTexCoord n)"] gTexCoord_x_range[of n]
  by (auto simp: DS_texIndex_def ftoi_def)

lemma DS_sTexCoord:
  "sTexCoord (DS_texIndex (gTexCoord n)) (gTexCoord n)
     = float2 ((x2 (gTexCoord n) - 1/2) * 2) (y2 (gTexCoord n))"
  using DS_texIndex_range[of n] by (auto simp: sTexCoord_def)

lemma PS_texIndex_0: "PS_texIndex (gTexCoord (normalize3 (float3 1 0 0))) = 0"
  by (simp add: PS_texIndex_def gTexCoord_def polar_theta_def atan2_def normalize3_def length3_def
      dot3_def scaleR_float3_def sign_def round_ne_def ftoi_def Let_def)

lemma PS_texIndex_1: "PS_texIndex (gTexCoord (normalize3 (float3 0 0 (- 1)))) = 1"
proof -
  have t: "polar_theta (normalize3 (float3 0 0 (- 1))) = 2 * PI - pi / 2"
    by (simp add: polar_theta_def atan2_def normalize3_def length3_def dot3_def
        scaleR_float3_def sign_def Let_def)
  have p: "pi / 2 < PI" "0 < PI" using pi_less_4 by (simp_all add: PI_def)
  define v where "v = (2 * PI - pi / 2) / (2 * PI)"
  have "v = 1 - pi / (4 * PI)" using p by (simp add: v_def field_simps)
  moreover have "0 < pi / (4 * PI)" "pi / (4 * PI) < 1/2"
    using pi_less_4 pi_gt_zero by (simp_all add: PI_def)
  ultimately have v: "1/2 < v" "v < 1" by simp_all
  then have f: "\<lfloor>v\<rfloor> = 0" by linarith
  have "round_ne v = 1" using v f by (simp add: round_ne_def Let_def)
  then show ?thesis by (simp add: PS_texIndex_def gTexCoord_def t v_def ftoi_def)
qed

lemma DS_unfold:
  "DS g input uv patch =
     (let n = normalize3 (DS_position input uv);
          i = DS_texIndex (gTexCoord n);
          st = sTexCoord i (gTexCoord n);
          lvl = DS_level (at4 (edgeTess patch) 0);
          cp = (150 + x4 (texSampleLevel g i st lvl) * (1/2)) *\<^sub>R n
      in (DS_OUT (mul (mul (float4_of cp 1) (worldMatrix (cb g))) (viewProjMatrix (cb g))) cp,
          [SampleLevel i st lvl]))"
  by (simp add: DS_def Let_def)

lemma face_out_position: "DS_position face_out (float2 (4/5) (1/2)) = float3 150 80 0"
  by (simp add: DS_position_def face_out_def HS_def face_patch_def VS_def xyz_def lerp3_def Let_def
      plus_float3_def minus_float3_def scaleR_float3_def)

text \<open>
  C2. At every domain location where the interpolated position is not the origin, for
  a patch whose edge factor \<open>edgeTess[0]\<close> is not negative (where \<open>normalize\<close> and
  \<open>sqrt\<close> are defined), \<open>DS\<close> reads a texture exactly once: one \<open>SampleLevel\<close> of a height map
  (\<open>texMap[2]\<close> or \<open>texMap[3]\<close>), at the mip level \<open>max(0, 8 - sqrt(tess) - 3)\<close>.
\<close>

theorem DS_one_height_lookup:
  assumes "DS_position input uv \<noteq> float3 0 0 0" and "0 \<le> at4 (edgeTess patch) 0"
  shows "\<exists>i st. (i = 2 \<or> i = 3) \<and>
           snd (DS g input uv patch) =
             [SampleLevel i st (max 0 (8 - sqrt (at4 (edgeTess patch) 0) - 3))] \<and>
           length (snd (DS g input uv patch)) = 1"
proof -
  define n where "n = normalize3 (DS_position input uv)"
  have "snd (DS g input uv patch) =
          [SampleLevel (DS_texIndex (gTexCoord n)) (sTexCoord (DS_texIndex (gTexCoord n)) (gTexCoord n))
             (max 0 (8 - sqrt (at4 (edgeTess patch) 0) - 3))]"
    by (simp add: DS_unfold Let_def n_def DS_level_def)
  then show ?thesis
    using DS_texIndex_range[of n] by auto
qed

theorem DS_one_height_lookup_witness:
  "DS_position face_out (float2 (4/5) (1/2)) \<noteq> float3 0 0 0 \<and>
   0 \<le> at4 (edgeTess tess4) 0 \<and>
   (\<exists>i st. (i = 2 \<or> i = 3) \<and>
      snd (DS near_camera face_out (float2 (4/5) (1/2)) tess4) = [SampleLevel i st 3] \<and>
      length (snd (DS near_camera face_out (float2 (4/5) (1/2)) tess4)) = 1)"
proof -
  have p: "DS_position face_out (float2 (4/5) (1/2)) \<noteq> float3 0 0 0"
    by (simp add: face_out_position)
  have h: "0 \<le> at4 (edgeTess tess4) 0" by (simp add: tess4_def)
  have "max 0 (8 - sqrt (at4 (edgeTess tess4) 0) - 3) = 3" by (simp add: tess4_def)
  then show ?thesis
    using p h DS_one_height_lookup[OF p h, of near_camera] by simp
qed

text \<open>
  C3. For control points \<open>a\<close>, \<open>b\<close>, \<open>c\<close>, \<open>d\<close> and a domain location \<open>(u, v)\<close>, let
  \<open>p\<close> be the bilinear interpolation \<open>(1 - v) ((1 - u) a + u b) + v ((1 - u) c + u d)\<close>
  and \<open>n = p / |p|\<close>. Where \<open>p\<close> is not the origin, \<open>DS\<close> reads a height map
  (\<open>texMap[2]\<close> or \<open>texMap[3]\<close>) once, at the coordinates computed from the polar angles
  \<open>atan2(n.z, n.x)\<close> (moved into \<open>[0, 2 PI)\<close>) and \<open>acos(n.y)\<close>; with the red channel
  \<open>height\<close> of that read, the cartesian position it returns is \<open>n * (150 + height * 0.5)\<close>,
  a point at distance \<open>|150 + height * 0.5|\<close> from the origin, and the output position is
  that point, with \<open>w = 1\<close>, multiplied as a row vector by the world matrix and then
  by the view-projection matrix.
\<close>

theorem DS_displaces_onto_sphere:
  fixes g :: Bindings and a b c d :: float3 and u v :: real and patch :: PatchTess
  defines "input \<equiv> array4 (HS_OUT a) (HS_OUT b) (HS_OUT c) (HS_OUT d)"
  defines "px \<equiv> (1 - v) * ((1 - u) * x3 a + u * x3 b) + v * ((1 - u) * x3 c + u * x3 d)"
  defines "py \<equiv> (1 - v) * ((1 - u) * y3 a + u * y3 b) + v * ((1 - u) * y3 c + u * y3 d)"
  defines "pz \<equiv> (1 - v) * ((1 - u) * z3 a + u * z3 b) + v * ((1 - u) * z3 c + u * z3 d)"
  defines "len \<equiv> sqrt (px * px + py * py + pz * pz)"
  defines "n \<equiv> float3 (px / len) (py / len) (pz / len)"
  defines "theta \<equiv> (if atan2 (z3 n) (x3 n) < 0 then 2 * PI + atan2 (z3 n) (x3 n) else atan2 (z3 n) (x3 n))"
  defines "st \<equiv> float2 ((theta / (2 * PI) - 1/2) * 2) (arccos (y3 n) / PI)"
  defines "lvl \<equiv> max 0 (8 - sqrt (at4 (edgeTess patch) 0) - 3)"
  defines "out \<equiv> fst (DS g input (float2 u v) patch)"
  defines "rowmul \<equiv> (\<lambda>w M.
             float4 (x4 w * x4 (row0 M) + y4 w * x4 (row1 M) + z4 w * x4 (row2 M) + w4 w * x4 (row3 M))
                    (x4 w * y4 (row0 M) + y4 w * y4 (row1 M) + z4 w * y4 (row2 M) + w4 w * y4 (row3 M))
                    (x4 w * z4 (row0 M) + y4 w * z4 (row1 M) + z4 w * z4 (row2 M) + w4 w * z4 (row3 M))
                    (x4 w * w4 (row0 M) + y4 w * w4 (row1 M) + z4 w * w4 (row2 M) + w4 w * w4 (row3 M)))"
  assumes "float3 px py pz \<noteq> float3 0 0 0"
  shows "DS_position input (float2 u v) = float3 px py pz \<and>
         (\<exists>i height.
            (i = 2 \<or> i = 3) \<and>
            snd (DS g input (float2 u v) patch) = [SampleLevel i st lvl] \<and>
            height = x4 (texSampleLevel g i st lvl) \<and>
            catPos out = float3 ((150 + height * (1/2)) * (px / len))
                                ((150 + height * (1/2)) * (py / len))
                                ((150 + height * (1/2)) * (pz / len)) \<and>
            sqrt (x3 (catPos out) * x3 (catPos out) + y3 (catPos out) * y3 (catPos out)
                    + z3 (catPos out) * z3 (catPos out)) = \<bar>150 + height * (1/2)\<bar> \<and>
            ds_position out
              = rowmul (rowmul (float4 (x3 (catPos out)) (y3 (catPos out)) (z3 (catPos out)) 1)
                               (worldMatrix (cb g)))
                       (viewProjMatrix (cb g)))"
proof -
  have M: "mul w M = rowmul w M" for w M
    by (simp add: mul_def rowmul_def scaleR_float4_def plus_float4_def)
  have P: "DS_position input (float2 u v) = float3 px py pz"
    by (simp add: DS_position_def input_def lerp3_def Let_def plus_float3_def minus_float3_def
        scaleR_float3_def px_def py_def pz_def algebra_simps)
  have N: "normalize3 (float3 px py pz) = n"
    by (simp add: normalize3_def length3_def dot3_def scaleR_float3_def n_def len_def)
  have n1: "length3 n = 1"
    unfolding N[symmetric] using assms(12) by (rule length3_normalize3)
  have T: "polar_theta n = theta"
    by (simp add: polar_theta_def Let_def sign_def theta_def)
  define i where "i = DS_texIndex (gTexCoord n)"
  define height where "height = x4 (texSampleLevel g i st lvl)"
  have I: "i = 2 \<or> i = 3" unfolding i_def by (rule DS_texIndex_range)
  have S: "sTexCoord i (gTexCoord n) = st"
    unfolding i_def DS_sTexCoord by (simp add: gTexCoord_def T st_def polar_phi_def)
  have D: "DS g input (float2 u v) patch =
             (DS_OUT (mul (mul (float4_of ((150 + height * (1/2)) *\<^sub>R n) 1) (worldMatrix (cb g)))
                          (viewProjMatrix (cb g)))
                     ((150 + height * (1/2)) *\<^sub>R n),
              [SampleLevel i st lvl])"
    by (simp add: DS_unfold Let_def P N S DS_level_def height_def lvl_def flip: i_def)
  have C: "catPos out = (150 + height * (1/2)) *\<^sub>R n" by (simp add: out_def D)
  have L: "length3 (catPos out) = \<bar>150 + height * (1/2)\<bar>"
    by (simp add: C length3_scale n1)
  have 1: "snd (DS g input (float2 u v) patch) = [SampleLevel i st lvl]" by (simp add: D)
  have 2: "catPos out = float3 ((150 + height * (1/2)) * (px / len))
                                ((150 + height * (1/2)) * (py / len))
                                ((150 + height * (1/2)) * (pz / len))"
    by (simp add: C scaleR_float3_def n_def)
  have 3: "sqrt (x3 (catPos out) * x3 (catPos out) + y3 (catPos out) * y3 (catPos out)
                    + z3 (catPos out) * z3 (catPos out)) = \<bar>150 + height * (1/2)\<bar>"
    using L by (simp add: length3_def dot3_def)
  have 4: "ds_position out
              = rowmul (rowmul (float4 (x3 (catPos out)) (y3 (catPos out)) (z3 (catPos out)) 1)
                               (worldMatrix (cb g)))
                       (viewProjMatrix (cb g))"
    by (simp add: out_def D float4_of_def M)
  show ?thesis
    using P I 1 2 3 4 height_def by blast
qed

theorem DS_displaces_onto_sphere_witness:
  "float3 150 80 0 \<noteq> float3 0 0 0 \<and>
   face_out = array4 (HS_OUT (float3 150 0 (- 80))) (HS_OUT (float3 150 100 (- 80)))
                     (HS_OUT (float3 150 0 80)) (HS_OUT (float3 150 100 80)) \<and>
   DS_position face_out (float2 (4/5) (1/2)) = float3 150 80 0 \<and>
   catPos (fst (DS near_camera face_out (float2 (4/5) (1/2)) tess4)) = float3 (2250 / 17) (1200 / 17) 0 \<and>
   DS_position face_out (float2 0 0) = float3 150 0 (- 80) \<and>
   catPos (fst (DS near_camera face_out (float2 0 0) tess4)) = float3 (2250 / 17) 0 (- (1200 / 17)) \<and>
   ds_position (fst (DS near_camera face_out (float2 0 0) tess4))
     = float4 (2250 / 17) 0 (- (1200 / 17)) 1"
proof -
  have f: "face_out = array4 (HS_OUT (float3 150 0 (- 80))) (HS_OUT (float3 150 100 (- 80)))
                     (HS_OUT (float3 150 0 80)) (HS_OUT (float3 150 100 80))"
    by (simp add: face_out_def HS_def face_patch_def VS_def xyz_def)
  have h: "float3 ((1 - 1/2) * ((1 - 4/5) * x3 (float3 150 0 (- 80)) + 4/5 * x3 (float3 150 100 (- 80)))
                    + 1/2 * ((1 - 4/5) * x3 (float3 150 0 80) + 4/5 * x3 (float3 150 100 80)))
                  ((1 - 1/2) * ((1 - 4/5) * y3 (float3 150 0 (- 80)) + 4/5 * y3 (float3 150 100 (- 80)))
                    + 1/2 * ((1 - 4/5) * y3 (float3 150 0 80) + 4/5 * y3 (float3 150 100 80)))
                  ((1 - 1/2) * ((1 - 4/5) * z3 (float3 150 0 (- 80)) + 4/5 * z3 (float3 150 100 (- 80)))
                    + 1/2 * ((1 - 4/5) * z3 (float3 150 0 80) + 4/5 * z3 (float3 150 100 80)))
           \<noteq> float3 0 0 0"
    by simp
  have k: "float3 ((1 - 0) * ((1 - 0) * x3 (float3 150 0 (- 80)) + 0 * x3 (float3 150 100 (- 80)))
                    + 0 * ((1 - 0) * x3 (float3 150 0 80) + 0 * x3 (float3 150 100 80)))
                  ((1 - 0) * ((1 - 0) * y3 (float3 150 0 (- 80)) + 0 * y3 (float3 150 100 (- 80)))
                    + 0 * ((1 - 0) * y3 (float3 150 0 80) + 0 * y3 (float3 150 100 80)))
                  ((1 - 0) * ((1 - 0) * z3 (float3 150 0 (- 80)) + 0 * z3 (float3 150 100 (- 80)))
                    + 0 * ((1 - 0) * z3 (float3 150 0 80) + 0 * z3 (float3 150 100 80)))
           \<noteq> float3 0 0 0"
    by simp
  have s: "sqrt 28900 = 170" by (rule real_sqrt_unique) simp_all
  have t: "\<And>i st lvl. texSampleLevel near_camera i st lvl = float4 0 0 0 0"
    by (simp add: near_camera_def)
  have w: "worldMatrix (cb near_camera) = identity4x4" "viewProjMatrix (cb near_camera) = identity4x4"
    by (simp_all add: near_camera_def)
  show ?thesis
    using DS_displaces_onto_sphere[OF h, of near_camera tess4]
      DS_displaces_onto_sphere[OF k, of near_camera tess4]
    by (auto simp: f t s w identity4x4_def)
qed

section \<open>Properties of the pixel shader\<close>

lemma CalcShadowFactor_unfold:
  fixes g shadowPosH
  defines "pos \<equiv> float2 (x4 shadowPosH / w4 shadowPosH) (y4 shadowPosH / w4 shadowPosH)"
  defines "depth \<equiv> z4 shadowPosH / w4 shadowPosH - shadowBias (cb g)"
  defines "dx \<equiv> 1 / real (texWidth g 4)"
  shows "CalcShadowFactor g shadowPosH =
     (sum_list (map (\<lambda>offset. texSampleCmpLevelZero g 4 (saturate2 (pos + offset)) depth) (grid3x3 dx)) / 9,
      map (\<lambda>offset. SampleCmpLevelZero 4 (saturate2 (pos + offset)) depth) (grid3x3 dx))"
  unfolding pos_def depth_def dx_def
  by (simp add: CalcShadowFactor_def Let_def shadow_loop.simps grid3x3_def xy_def)

text \<open>
  C5, as stated, fails. At the shadow position \<open>(2, 2, 1/2, 1)\<close>, outside the shadow
  map, the nine positions moved by the grid have \<open>x > 1\<close>, where the comparison of
  \<open>lit_inside\<close> yields 0, so the mean of the specification is 0; \<open>CalcShadowFactor\<close>
  returns 1, because it samples at the positions clamped to \<open>[0, 1]\<close>.
\<close>

theorem CalcShadowFactor_unclamped_counterexample:
  "fst (CalcShadowFactor lit_inside (float4 2 2 (1/2) 1)) = 1 \<and>
   spec_shadow_factor lit_inside (float4 2 2 (1/2) 1) = 0 \<and>
   fst (CalcShadowFactor lit_inside (float4 2 2 (1/2) 1))
     \<noteq> spec_shadow_factor lit_inside (float4 2 2 (1/2) 1)"
  by (simp add: CalcShadowFactor_unfold spec_shadow_factor_def grid3x3_def lit_inside_def
      near_camera_def saturate2_def saturate_def plus_float2_def Let_def)

text \<open>
  C5, amended. For a shadow position with \<open>w \<noteq> 0\<close> and a shadow map of positive
  width, \<open>CalcShadowFactor\<close> returns the mean of exactly nine comparison samples of
  \<open>texMap[4]\<close>: they are taken at the projected shadow position moved by each offset of
  the 3x3 grid of one-texel offsets (texel size \<open>1/width\<close>) and then clamped to
  \<open>[0, 1]\<close> in each coordinate, and each is compared against the depth minus the bias.
\<close>

theorem CalcShadowFactor_nine_tap_mean:
  fixes g shadowPosH
  defines "pos \<equiv> float2 (x4 shadowPosH / w4 shadowPosH) (y4 shadowPosH / w4 shadowPosH)"
  defines "depth \<equiv> z4 shadowPosH / w4 shadowPosH - shadowBias (cb g)"
  defines "taps \<equiv> map (\<lambda>offset. saturate2 (pos + offset)) (grid3x3 (1 / real (texWidth g 4)))"
  assumes "w4 shadowPosH \<noteq> 0" and "0 < texWidth g 4"
  shows "fst (CalcShadowFactor g shadowPosH)
           = sum_list (map (\<lambda>c. texSampleCmpLevelZero g 4 c depth) taps) / 9 \<and>
         snd (CalcShadowFactor g shadowPosH) = map (\<lambda>c. SampleCmpLevelZero 4 c depth) taps \<and>
         length taps = 9"
  unfolding pos_def depth_def taps_def
  by (simp add: CalcShadowFactor_unfold comp_def) (simp add: grid3x3_def)

theorem CalcShadowFactor_nine_tap_mean_witness:
  "w4 (float4 2 2 (1/2) 1) \<noteq> 0 \<and> 0 < texWidth lit_inside 4 \<and>
   fst (CalcShadowFactor lit_inside (float4 2 2 (1/2) 1)) = 9 / 9 \<and>
   snd (CalcShadowFactor lit_inside (float4 2 2 (1/2) 1))
     = replicate 9 (SampleCmpLevelZero 4 (float2 1 1) (1/2))"
proof -
  have h: "w4 (float4 2 2 (1/2) 1) \<noteq> 0" "0 < texWidth lit_inside 4"
    by (simp_all add: lit_inside_def)
  show ?thesis
    using h CalcShadowFactor_nine_tap_mean[OF h]
    by (simp add: grid3x3_def lit_inside_def near_camera_def saturate2_def saturate_def
        plus_float2_def numeral_eq_Suc)
qed

lemma cross_scale: "cross (a *\<^sub>R u) (b *\<^sub>R v) = (a * b) *\<^sub>R cross u v"
  by (simp add: cross_def scaleR_float3_def algebra_simps)

lemma length3_pos: "v \<noteq> float3 0 0 0 \<Longrightarrow> 0 < length3 v"
proof -
  assume "v \<noteq> float3 0 0 0"
  then have "length3 v \<noteq> 0" by (simp add: length3_zero_iff)
  moreover have "0 \<le> length3 v" by (simp add: length3_def dot3_def)
  ultimately show ?thesis by simp
qed

lemma normalize3_scale: "0 < k \<Longrightarrow> normalize3 (k *\<^sub>R v) = normalize3 v"
  by (simp add: normalize3_def length3_scale) (simp add: scaleR_float3_def)

text \<open>The normalized cross product of the two difference vectors, in closed form.\<close>

lemma height_normal_closed:
  "normalize3 (cross (normalize3 (float3 2 0 p)) (normalize3 (float3 0 2 q)))
     = normalize3 (float3 (- p) (- q) 2)"
proof -
  define a where "a = 1 / length3 (float3 2 0 p)"
  define b where "b = 1 / length3 (float3 0 2 q)"
  have a: "0 < a" unfolding a_def using length3_pos[of "float3 2 0 p"] by simp
  have b: "0 < b" unfolding b_def using length3_pos[of "float3 0 2 q"] by simp
  have c: "cross (float3 2 0 p) (float3 0 2 q) = 2 *\<^sub>R float3 (- p) (- q) 2"
    by (simp add: cross_def scaleR_float3_def)
  have "cross (normalize3 (float3 2 0 p)) (normalize3 (float3 0 2 q))
          = (a * b * 2) *\<^sub>R float3 (- p) (- q) 2"
    by (simp add: normalize3_def cross_scale c flip: a_def b_def) (simp add: scaleR_float3_def)
  moreover have "0 < a * b * 2" using a b by simp
  ultimately show ?thesis by (simp add: normalize3_scale)
qed

lemma GetNormalFromHeight_unfold:
  fixes g tex sTex m
  defines "texel \<equiv> 1 / 11520"
  defines "a \<equiv> x4 (texSample g tex (sTex + m *\<^sub>R float2 (- texel) 0))"
  defines "b \<equiv> x4 (texSample g tex (sTex + m *\<^sub>R float2 texel 0))"
  defines "c \<equiv> x4 (texSample g tex (sTex + m *\<^sub>R float2 0 (- texel)))"
  defines "d \<equiv> x4 (texSample g tex (sTex + m *\<^sub>R float2 0 texel))"
  shows "GetNormalFromHeight g tex sTex m =
     (normalize3 (cross (normalize3 (float3 2 0 ((b - a) / 2))) (normalize3 (float3 0 2 ((d - c) / 2)))),
      [Sample tex (sTex + m *\<^sub>R float2 (- texel) 0), Sample tex (sTex + m *\<^sub>R float2 texel 0),
       Sample tex (sTex + m *\<^sub>R float2 0 (- texel)), Sample tex (sTex + m *\<^sub>R float2 0 texel)])"
  unfolding a_def b_def c_def d_def texel_def
  by (simp add: GetNormalFromHeight_def Let_def off_def nTex_def size_c_def)

lemma PS_lookups:
  fixes g input
  defines "gTex \<equiv> gTexCoord (normalize3 (catPos input))"
  defines "sTex \<equiv> sTexCoord (PS_texIndex gTex) gTex"
  shows "snd (PS g input) =
           snd (PS_localNormal g (PS_texIndex gTex) sTex)
           @ [Sample (PS_texIndex gTex) sTex]
           @ snd (CalcShadowFactor g (mul (float4_of (catPos input) 1) (shadowTransform (cb g))))"
  unfolding gTex_def sTex_def by (simp add: PS_def Let_def)

text \<open>
  C6. \<open>GetNormalFromHeight\<close> reads the height map four times, one texel (\<open>1/11520\<close>)
  to the left, to the right, up and down, each offset scaled by the multiplier; with the
  red channels \<open>a\<close>, \<open>b\<close>, \<open>c\<close>, \<open>d\<close> of the four reads it returns the normalized cross
  product of the normalized vectors \<open>(2, 0, (b - a)/2)\<close> and \<open>(0, 2, (d - c)/2)\<close>, which is
  the normalized vector \<open>(-(b - a)/2, -(d - c)/2, 2)\<close>. The colour that \<open>PS\<close> returns is
  computed from the normal \<open>normalize(mul(localNormal, TBN))\<close>, where \<open>TBN\<close> has the
  normalized rows \<open>T\<close>, \<open>B\<close>, \<open>N\<close> and \<open>localNormal\<close> is the normalized average, with the
  weights 3, 2 and 1 over 6, of three such normals of the height map \<open>texMap[texIndex + 2]\<close>
  at the texture coordinates of the pixel, for the multipliers 1, 2 and 3. The texture
  reads of \<open>PS\<close> are the twelve reads of these normals, the read of the colour map and
  the reads of the shadow factor.
\<close>

theorem PS_normal_from_height_differences:
  fixes g :: Bindings and tex :: int and sTex :: float2 and m :: real and input :: DS_OUT
  defines "texel \<equiv> 1 / 11520"
  defines "a \<equiv> x4 (texSample g tex (sTex + m *\<^sub>R float2 (- texel) 0))"
  defines "b \<equiv> x4 (texSample g tex (sTex + m *\<^sub>R float2 texel 0))"
  defines "c \<equiv> x4 (texSample g tex (sTex + m *\<^sub>R float2 0 (- texel)))"
  defines "d \<equiv> x4 (texSample g tex (sTex + m *\<^sub>R float2 0 texel))"
  defines "N \<equiv> normalize3 (catPos input)"
  defines "ti \<equiv> PS_texIndex (gTexCoord N)"
  defines "st \<equiv> sTexCoord ti (gTexCoord N)"
  defines "left \<equiv> (\<lambda>k. x4 (texSample g (ti + 2) (st + k *\<^sub>R float2 (- texel) 0)))"
  defines "right \<equiv> (\<lambda>k. x4 (texSample g (ti + 2) (st + k *\<^sub>R float2 texel 0)))"
  defines "up \<equiv> (\<lambda>k. x4 (texSample g (ti + 2) (st + k *\<^sub>R float2 0 (- texel))))"
  defines "down \<equiv> (\<lambda>k. x4 (texSample g (ti + 2) (st + k *\<^sub>R float2 0 texel)))"
  defines "n \<equiv> (\<lambda>k. normalize3 (cross (normalize3 (float3 2 0 ((right k - left k) / 2)))
                                         (normalize3 (float3 0 2 ((down k - up k) / 2)))))"
  defines "localNormal \<equiv> normalize3 ((1/6) *\<^sub>R (3 *\<^sub>R n 1 + 2 *\<^sub>R n 2 + 1 *\<^sub>R n 3))"
  defines "T \<equiv> float3 (- sin (polar_theta N)) 0 (cos (polar_theta N))"
  defines "normal \<equiv> normalize3 (mul3 localNormal (normalize3 T, normalize3 (cross N T), normalize3 N))"
  defines "light \<equiv> - xyz (lightDirection (cb g))"
  defines "shadow \<equiv> CalcShadowFactor g (mul (float4_of (catPos input) 1) (shadowTransform (cb g)))"
  defines "lit \<equiv> (saturate (fst shadow + lerp 0.75 1 (max (dot3 N light) 0))
                      *\<^sub>R (saturate (dot3 normal light) *\<^sub>R xyz (lightColor (cb g)))
                    + float3 0.008 0.008 0.008 * xyz (lightColor (cb g)))
                   * xyz (texSample g ti st)"
  defines "rgb \<equiv> saturate3 (lerp 0.98 1 (distance3 (catPos input) (float3 0 0 0) - 150)
                    *\<^sub>R (lerp 0.92 1 (noise (20000 *\<^sub>R st))
                    *\<^sub>R (lerp 0.95 1 (noise (10000 *\<^sub>R st)) *\<^sub>R lit)))"
  shows "GetNormalFromHeight g tex sTex m =
           (normalize3 (cross (normalize3 (float3 2 0 ((b - a) / 2)))
                              (normalize3 (float3 0 2 ((d - c) / 2)))),
            [Sample tex (sTex + m *\<^sub>R float2 (- texel) 0), Sample tex (sTex + m *\<^sub>R float2 texel 0),
             Sample tex (sTex + m *\<^sub>R float2 0 (- texel)), Sample tex (sTex + m *\<^sub>R float2 0 texel)]) \<and>
         fst (GetNormalFromHeight g tex sTex m)
           = normalize3 (float3 (- ((b - a) / 2)) (- ((d - c) / 2)) 2) \<and>
         fst (PS g input) = PS_OUTPUT (float4 (x3 rgb) (y3 rgb) (z3 rgb) 1) \<and>
         n 1 = normalize3 (float3 (- ((right 1 - left 1) / 2)) (- ((down 1 - up 1) / 2)) 2) \<and>
         n 2 = normalize3 (float3 (- ((right 2 - left 2) / 2)) (- ((down 2 - up 2) / 2)) 2) \<and>
         n 3 = normalize3 (float3 (- ((right 3 - left 3) / 2)) (- ((down 3 - up 3) / 2)) 2) \<and>
         snd (PS g input) =
           concat (map (\<lambda>k. [Sample (ti + 2) (st + k *\<^sub>R float2 (- texel) 0),
                              Sample (ti + 2) (st + k *\<^sub>R float2 texel 0),
                              Sample (ti + 2) (st + k *\<^sub>R float2 0 (- texel)),
                              Sample (ti + 2) (st + k *\<^sub>R float2 0 texel)]) [1, 2, 3])
           @ [Sample ti st] @ snd shadow"
proof -
  have 1: "GetNormalFromHeight g tex sTex m =
           (normalize3 (cross (normalize3 (float3 2 0 ((b - a) / 2)))
                              (normalize3 (float3 0 2 ((d - c) / 2)))),
            [Sample tex (sTex + m *\<^sub>R float2 (- texel) 0), Sample tex (sTex + m *\<^sub>R float2 texel 0),
             Sample tex (sTex + m *\<^sub>R float2 0 (- texel)), Sample tex (sTex + m *\<^sub>R float2 0 texel)])"
    unfolding a_def b_def c_def d_def texel_def by (rule GetNormalFromHeight_unfold)
  have 2: "fst (GetNormalFromHeight g tex sTex m)
           = normalize3 (float3 (- ((b - a) / 2)) (- ((d - c) / 2)) 2)"
    unfolding 1 fst_conv by (rule height_normal_closed)
  have G: "GetNormalFromHeight g (ti + 2) st k =
             (n k, [Sample (ti + 2) (st + k *\<^sub>R float2 (- texel) 0),
                    Sample (ti + 2) (st + k *\<^sub>R float2 texel 0),
                    Sample (ti + 2) (st + k *\<^sub>R float2 0 (- texel)),
                    Sample (ti + 2) (st + k *\<^sub>R float2 0 texel)])" for k
    unfolding n_def left_def right_def up_def down_def texel_def by (rule GetNormalFromHeight_unfold)
  have L: "PS_localNormal g ti st =
             (localNormal,
              concat (map (\<lambda>k. [Sample (ti + 2) (st + k *\<^sub>R float2 (- texel) 0),
                              Sample (ti + 2) (st + k *\<^sub>R float2 texel 0),
                              Sample (ti + 2) (st + k *\<^sub>R float2 0 (- texel)),
                              Sample (ti + 2) (st + k *\<^sub>R float2 0 texel)]) [1, 2, 3]))"
    by (simp add: PS_localNormal_def Let_def G localNormal_def)
  have M: "PS_normal N localNormal = normal"
    by (simp add: PS_normal_def Let_def T_def normal_def)
  have P: "PS g input =
             (PS_OUTPUT (float4 (x3 rgb) (y3 rgb) (z3 rgb) 1),
              snd (PS_localNormal g ti st) @ [Sample ti st] @ snd shadow)"
    unfolding rgb_def lit_def
    by (simp add: PS_def Let_def L M flip: N_def ti_def st_def light_def shadow_def)
  have 3: "fst (PS g input) = PS_OUTPUT (float4 (x3 rgb) (y3 rgb) (z3 rgb) 1)"
    by (simp add: P)
  have 4: "n k = normalize3 (float3 (- ((right k - left k) / 2)) (- ((down k - up k) / 2)) 2)" for k
    unfolding n_def by (rule height_normal_closed)
  have 5: "snd (PS g input) =
           concat (map (\<lambda>k. [Sample (ti + 2) (st + k *\<^sub>R float2 (- texel) 0),
                              Sample (ti + 2) (st + k *\<^sub>R float2 texel 0),
                              Sample (ti + 2) (st + k *\<^sub>R float2 0 (- texel)),
                              Sample (ti + 2) (st + k *\<^sub>R float2 0 texel)]) [1, 2, 3])
           @ [Sample ti st] @ snd shadow"
    by (simp add: P L)
  show ?thesis using 1 2 3 4 5 by blast
qed

text \<open>The thirteenth texture read of \<open>PS\<close> is that of the colour map.\<close>

lemma PS_colour_lookup:
  fixes g input
  defines "gTex \<equiv> gTexCoord (normalize3 (catPos input))"
  shows "snd (PS g input) ! 12 = Sample (PS_texIndex gTex) (sTexCoord (PS_texIndex gTex) gTex)"
proof -
  have "length (snd (PS_localNormal g (PS_texIndex gTex) (sTexCoord (PS_texIndex gTex) gTex))) = 12"
    by (simp add: PS_localNormal_def Let_def GetNormalFromHeight_unfold)
  then show ?thesis
    unfolding gTex_def by (simp add: PS_lookups nth_append)
qed

text \<open>
  C9. In the domain shader, at every domain location where the interpolated position is
  not the origin (where \<open>normalize\<close> is defined), \<open>texIndex = round(gTexCoord.x) + 2\<close>
  is 2 or 3, so \<open>texIndex == 0\<close> is false and \<open>sTexCoord.x\<close> is \<open>(gTexCoord.x - 0.5) * 2\<close>:
  the one texture read of \<open>DS\<close> is made with that index and those coordinates. In the
  pixel shader, where \<open>texIndex = round(gTexCoord.x)\<close>, both branches are taken: the
  colour map is read with index 0 at \<open>x * 2\<close> for the position \<open>(1, 0, 0)\<close>, and with
  index 1 at \<open>(x - 0.5) * 2\<close> for the position \<open>(0, 0, -1)\<close>.
\<close>

theorem DS_texIndex_never_zero:
  fixes g input uv patch q
  defines "gTex \<equiv> gTexCoord (normalize3 (DS_position input uv))"
  assumes "DS_position input uv \<noteq> float3 0 0 0"
  shows "(DS_texIndex gTex = 2 \<or> DS_texIndex gTex = 3) \<and>
         0 \<le> x2 gTex \<and> x2 gTex \<le> 1 \<and>
         sTexCoord (DS_texIndex gTex) gTex = float2 ((x2 gTex - 1/2) * 2) (y2 gTex) \<and>
         snd (DS g input uv patch) =
           [SampleLevel (DS_texIndex gTex) (float2 ((x2 gTex - 1/2) * 2) (y2 gTex))
              (DS_level (at4 (edgeTess patch) 0))] \<and>
         PS_texIndex (gTexCoord (normalize3 (float3 1 0 0))) = 0 \<and>
         snd (PS g (DS_OUT q (float3 1 0 0))) ! 12
           = Sample 0 (float2 (x2 (gTexCoord (normalize3 (float3 1 0 0))) * 2)
                              (y2 (gTexCoord (normalize3 (float3 1 0 0))))) \<and>
         PS_texIndex (gTexCoord (normalize3 (float3 0 0 (- 1)))) = 1 \<and>
         snd (PS g (DS_OUT q (float3 0 0 (- 1)))) ! 12
           = Sample 1 (float2 ((x2 (gTexCoord (normalize3 (float3 0 0 (- 1)))) - 1/2) * 2)
                              (y2 (gTexCoord (normalize3 (float3 0 0 (- 1))))))"
proof -
  have a: "DS_texIndex gTex = 2 \<or> DS_texIndex gTex = 3"
    unfolding gTex_def by (rule DS_texIndex_range)
  have b: "0 \<le> x2 gTex" "x2 gTex \<le> 1"
    using gTexCoord_x_range[of "normalize3 (DS_position input uv)"] by (simp_all add: gTex_def)
  have c: "sTexCoord (DS_texIndex gTex) gTex = float2 ((x2 gTex - 1/2) * 2) (y2 gTex)"
    unfolding gTex_def by (rule DS_sTexCoord)
  have d: "snd (DS g input uv patch) =
           [SampleLevel (DS_texIndex gTex) (sTexCoord (DS_texIndex gTex) gTex)
              (DS_level (at4 (edgeTess patch) 0))]"
    by (simp add: DS_unfold Let_def gTex_def)
  have e: "snd (PS g (DS_OUT q (float3 1 0 0))) ! 12
           = Sample 0 (float2 (x2 (gTexCoord (normalize3 (float3 1 0 0))) * 2)
                              (y2 (gTexCoord (normalize3 (float3 1 0 0)))))"
    by (simp add: PS_colour_lookup PS_texIndex_0 sTexCoord_def)
  have f: "snd (PS g (DS_OUT q (float3 0 0 (- 1)))) ! 12
           = Sample 1 (float2 ((x2 (gTexCoord (normalize3 (float3 0 0 (- 1)))) - 1/2) * 2)
                              (y2 (gTexCoord (normalize3 (float3 0 0 (- 1))))))"
    by (simp add: PS_colour_lookup PS_texIndex_1 sTexCoord_def)
  show ?thesis
    using a b c d e f PS_texIndex_0 PS_texIndex_1 by simp
qed

theorem DS_texIndex_never_zero_witness:
  "DS_position face_out (float2 (4/5) (1/2)) \<noteq> float3 0 0 0 \<and>
   (DS_texIndex (gTexCoord (normalize3 (float3 150 80 0))) = 2 \<or>
    DS_texIndex (gTexCoord (normalize3 (float3 150 80 0))) = 3) \<and>
   x2 (sTexCoord (DS_texIndex (gTexCoord (normalize3 (float3 150 80 0))))
         (gTexCoord (normalize3 (float3 150 80 0))))
     = (x2 (gTexCoord (normalize3 (float3 150 80 0))) - 1/2) * 2"
proof -
  have p: "DS_position face_out (float2 (4/5) (1/2)) \<noteq> float3 0 0 0"
    by (simp add: face_out_position)
  show ?thesis
    using p DS_texIndex_never_zero[OF p, where g = near_camera and patch = tess4]
    by (simp add: face_out_position)
qed

section \<open>Properties of the frame driver\<close>

lemma sint32_bound: "sint (a :: 32 word) < 2147483648 \<and> - 2147483648 \<le> sint a"
  using sint_lt[of a] sint_ge[of a] by simp

lemma uint_scast_nonneg:
  fixes a :: "32 word"
  assumes "0 \<le> sint a"
  shows "uint (scast a :: 64 word) = sint a"
proof -
  have "sint a < 2 ^ LENGTH(64)" using sint32_bound[of a] by simp
  then have "sint a mod 2 ^ LENGTH(64) = sint a" using assms by (rule_tac mod_pos_pos_trivial)
  moreover have "uint (scast a :: 64 word) = sint a mod 2 ^ LENGTH(64)"
    unfolding scast_eq by (rule uint_word_of_int)
  ultimately show ?thesis by simp
qed

lemma fence_value:
  fixes frameIdx numBackBuffers :: "32 word"
  assumes "0 \<le> sint numBackBuffers" "sint numBackBuffers \<le> sint frameIdx"
  shows "uint (scast (frameIdx - numBackBuffers) :: 64 word) = sint frameIdx - sint numBackBuffers"
proof -
  have "sint frameIdx < 2 ^ (LENGTH(32) - 1)" using sint32_bound[of frameIdx] by simp
  then have "signed_take_bit (LENGTH(32) - 1) (sint frameIdx - sint numBackBuffers)
               = sint frameIdx - sint numBackBuffers"
    using assms by (intro signed_take_bit_int_eq_self) simp_all
  then have e: "sint (frameIdx - numBackBuffers) = sint frameIdx - sint numBackBuffers"
    by (simp only: sint_word_diff)
  then have "0 \<le> sint (frameIdx - numBackBuffers)" using assms by simp
  from uint_scast_nonneg[OF this] e show ?thesis by simp
qed

lemma fence_condition:
  fixes frameIdx numBackBuffers :: "32 word" and completedValue :: "64 word"
  assumes "0 \<le> sint frameIdx" "0 \<le> sint numBackBuffers"
  shows "(completedValue < scast frameIdx \<and> scast numBackBuffers < scast frameIdx - completedValue)
         \<longleftrightarrow> sint numBackBuffers < sint frameIdx - uint completedValue"
proof -
  have a: "uint (scast frameIdx :: 64 word) = sint frameIdx"
    and n: "uint (scast numBackBuffers :: 64 word) = sint numBackBuffers"
    using assms by (simp_all add: uint_scast_nonneg)
  show ?thesis
  proof (cases "completedValue < scast frameIdx")
    case True
    then have "uint completedValue \<le> uint (scast frameIdx :: 64 word)" by (simp add: word_less_def)
    then have "uint (scast frameIdx - completedValue) = sint frameIdx - uint completedValue"
      by (simp add: uint_sub_if' a)
    then show ?thesis using True by (simp add: word_less_def n)
  next
    case False
    then have "sint frameIdx \<le> uint completedValue" by (simp add: word_less_def a)
    then show ?thesis using False assms by simp
  qed
qed

lemma Render_cases:
  fixes cfg env game
  defines "frameIdx \<equiv> GetCurrentFrameIndex env"
  defines "numBackBuffers \<equiv> GetBackBufferCount env"
  defines "cbIndex \<equiv> c_numDrawCalls cfg * word_of_int (sint frameIdx smod sint numBackBuffers)"
  defines "frame \<equiv>
      [Prepare, PIXBeginEvent ''Clear'', OMSetRenderTargets, ClearRenderTargetView, ClearDepthStencilView,
       RSSetViewports, RSSetScissorRects, PIXEndEvent, PIXBeginEvent ''Render'', SetGraphicsRootSignature,
       SetPipelineState, SetDescriptorHeaps 1, SetGraphicsRootDescriptorTable 0 0, WriteConstants cbIndex,
       SetGraphicsRootConstantBufferView 1
         (m_cbGpuAddress game + of_nat (sizeof_PaddedConstantBuffer cfg) * ucast cbIndex),
       IASetPrimitiveTopology, IASetVertexBuffers, IASetIndexBuffer,
       DrawIndexedInstanced (m_indexCount game) 1 0 0 0, PIXEndEvent, PIXBeginEvent ''Present'', Present,
       Signal (scast frameIdx), PIXEndEvent]"
  defines "behind \<equiv> GetCompletedValue env < scast frameIdx
                     \<and> scast numBackBuffers < scast frameIdx - GetCompletedValue env"
  defines "event \<equiv> SetEventOnCompletion (scast (frameIdx - numBackBuffers))"
  shows "Render cfg env game =
     (if frameCount (m_timer game) = 0 then ([], Returned)
      else if \<not> behind then (frame, Returned)
      else if succeeds env event then (event # WaitForSingleObjectEx # frame, Returned)
      else ([event], Thrown com_exception))"
  unfolding frame_def behind_def event_def cbIndex_def frameIdx_def numBackBuffers_def
  by (simp add: Render_def Let_def Clear_def)

text \<open>
  C4. In a call of \<open>Render\<close>, with a frame index and a back-buffer count that are not
  negative as \<^verbatim>\<open>int\<close>: the CPU waits on the fence event at most once; it waits only when
  the frame index exceeds the completed value of the fence by more than the back-buffer
  count, after \<open>SetEventOnCompletion\<close> for the fence value \<open>frameIdx - numBackBuffers\<close>;
  otherwise \<open>Render\<close> neither waits nor sets an event; and when \<open>Render\<close> draws a frame
  and returns, its calls end with \<open>Present\<close>, then \<open>Signal\<close> of the fence with the frame
  index read at the start of \<open>Render\<close>.
\<close>

theorem Render_single_fence_wait:
  fixes cfg env game
  defines "calls \<equiv> fst (Render cfg env game)"
  defines "ahead \<equiv> sint (GetCurrentFrameIndex env) - uint (GetCompletedValue env)"
  assumes idx: "0 \<le> sint (GetCurrentFrameIndex env)" and cnt: "0 \<le> sint (GetBackBufferCount env)"
  shows "length (filter (\<lambda>c. c = WaitForSingleObjectEx) calls) \<le> 1 \<and>
         length (filter is_SetEventOnCompletion calls) \<le> 1 \<and>
         (WaitForSingleObjectEx \<in> set calls \<longrightarrow>
            sint (GetBackBufferCount env) < ahead \<and>
            (\<exists>v. take 2 calls = [SetEventOnCompletion v, WaitForSingleObjectEx] \<and>
                 uint v = sint (GetCurrentFrameIndex env) - sint (GetBackBufferCount env))) \<and>
         (ahead \<le> sint (GetBackBufferCount env) \<longrightarrow>
            filter (\<lambda>c. c = WaitForSingleObjectEx) calls = [] \<and> filter is_SetEventOnCompletion calls = []) \<and>
         (frameCount (m_timer game) \<noteq> 0 \<and> snd (Render cfg env game) = Returned \<longrightarrow>
            (\<exists>before s. calls = before @ [Present, Signal s, PIXEndEvent] \<and>
                 Present \<notin> set before \<and> uint s = sint (GetCurrentFrameIndex env)))"
proof -
  define cbIndex where "cbIndex = c_numDrawCalls cfg
      * (word_of_int (sint (GetCurrentFrameIndex env) smod sint (GetBackBufferCount env)) :: 32 word)"
  define address where "address = m_cbGpuAddress game + of_nat (sizeof_PaddedConstantBuffer cfg) * ucast cbIndex"
  define behind where "behind \<longleftrightarrow> GetCompletedValue env < scast (GetCurrentFrameIndex env)
                     \<and> scast (GetBackBufferCount env) < scast (GetCurrentFrameIndex env) - GetCompletedValue env"
  have b: "behind \<longleftrightarrow> sint (GetBackBufferCount env) < ahead"
    unfolding behind_def ahead_def using idx cnt by (rule fence_condition)
  have s: "uint (scast (GetCurrentFrameIndex env) :: 64 word) = sint (GetCurrentFrameIndex env)"
    using idx by (rule uint_scast_nonneg)
  have v: "uint (scast (GetCurrentFrameIndex env - GetBackBufferCount env) :: 64 word)
             = sint (GetCurrentFrameIndex env) - sint (GetBackBufferCount env)" if "behind"
  proof -
    from that b have "sint (GetBackBufferCount env) < ahead" by simp
    moreover have "0 \<le> uint (GetCompletedValue env)" by simp
    ultimately have "sint (GetBackBufferCount env) \<le> sint (GetCurrentFrameIndex env)"
      unfolding ahead_def by linarith
    with cnt show ?thesis by (rule fence_value)
  qed
  consider (idle) "frameCount (m_timer game) = 0"
    | (free) "frameCount (m_timer game) \<noteq> 0" "\<not> behind"
    | (waits) "frameCount (m_timer game) \<noteq> 0" "behind"
        "succeeds env (SetEventOnCompletion (scast (GetCurrentFrameIndex env - GetBackBufferCount env)))"
    | (throws) "frameCount (m_timer game) \<noteq> 0" "behind"
        "\<not> succeeds env (SetEventOnCompletion (scast (GetCurrentFrameIndex env - GetBackBufferCount env)))"
    by blast
  then show ?thesis
  proof cases
    case idle
    then show ?thesis by (simp add: calls_def Render_cases)
  next
    case free
    have R: "Render cfg env game =
      ([Prepare, PIXBeginEvent ''Clear'', OMSetRenderTargets, ClearRenderTargetView, ClearDepthStencilView,
        RSSetViewports, RSSetScissorRects, PIXEndEvent, PIXBeginEvent ''Render'', SetGraphicsRootSignature,
        SetPipelineState, SetDescriptorHeaps 1, SetGraphicsRootDescriptorTable 0 0,
        WriteConstants cbIndex, SetGraphicsRootConstantBufferView 1 address,
        IASetPrimitiveTopology, IASetVertexBuffers, IASetIndexBuffer,
        DrawIndexedInstanced (m_indexCount game) 1 0 0 0, PIXEndEvent, PIXBeginEvent ''Present'']
       @ [Present, Signal (scast (GetCurrentFrameIndex env)), PIXEndEvent], Returned)"
      using free by (simp add: Render_cases behind_def cbIndex_def address_def)
    have n: "\<not> sint (GetBackBufferCount env) < ahead" using free b by simp
    have 1: "filter (\<lambda>c. c = WaitForSingleObjectEx) calls = []"
      and 2: "filter is_SetEventOnCompletion calls = []"
      and 3: "WaitForSingleObjectEx \<notin> set calls"
      by (simp_all add: calls_def R is_SetEventOnCompletion_def)
    have 4: "\<exists>before s. calls = before @ [Present, Signal s, PIXEndEvent] \<and>
                 Present \<notin> set before \<and> uint s = sint (GetCurrentFrameIndex env)"
      unfolding calls_def R fst_conv
      by (intro exI conjI, rule refl) (simp_all add: s)
    show ?thesis using 1 2 3 4 by simp
  next
    case waits
    have R: "Render cfg env game =
      ([SetEventOnCompletion (scast (GetCurrentFrameIndex env - GetBackBufferCount env)),
        WaitForSingleObjectEx,
        Prepare, PIXBeginEvent ''Clear'', OMSetRenderTargets, ClearRenderTargetView, ClearDepthStencilView,
        RSSetViewports, RSSetScissorRects, PIXEndEvent, PIXBeginEvent ''Render'', SetGraphicsRootSignature,
        SetPipelineState, SetDescriptorHeaps 1, SetGraphicsRootDescriptorTable 0 0,
        WriteConstants cbIndex, SetGraphicsRootConstantBufferView 1 address,
        IASetPrimitiveTopology, IASetVertexBuffers, IASetIndexBuffer,
        DrawIndexedInstanced (m_indexCount game) 1 0 0 0, PIXEndEvent, PIXBeginEvent ''Present'']
       @ [Present, Signal (scast (GetCurrentFrameIndex env)), PIXEndEvent], Returned)"
      using waits by (simp add: Render_cases behind_def cbIndex_def address_def)
    have y: "sint (GetBackBufferCount env) < ahead" using waits b by simp
    have 1: "length (filter (\<lambda>c. c = WaitForSingleObjectEx) calls) = 1"
      and 2: "length (filter is_SetEventOnCompletion calls) = 1"
      and 3: "take 2 calls = [SetEventOnCompletion (scast (GetCurrentFrameIndex env - GetBackBufferCount env)),
                              WaitForSingleObjectEx]"
      by (simp_all add: calls_def R is_SetEventOnCompletion_def)
    have 4: "\<exists>before s. calls = before @ [Present, Signal s, PIXEndEvent] \<and>
                 Present \<notin> set before \<and> uint s = sint (GetCurrentFrameIndex env)"
      unfolding calls_def R fst_conv
      by (intro exI conjI, rule refl) (simp_all add: s)
    show ?thesis using 1 2 3 4 y v[OF waits(2)] by simp
  next
    case throws
    have R: "Render cfg env game =
      ([SetEventOnCompletion (scast (GetCurrentFrameIndex env - GetBackBufferCount env))],
       Thrown com_exception)"
      using throws by (simp add: Render_cases behind_def)
    have y: "sint (GetBackBufferCount env) < ahead" using throws b by simp
    show ?thesis using y by (simp add: calls_def R is_SetEventOnCompletion_def)
  qed
qed

theorem Render_single_fence_wait_witness:
  "0 \<le> sint (GetCurrentFrameIndex lagging_env) \<and> 0 \<le> sint (GetBackBufferCount lagging_env) \<and>
   WaitForSingleObjectEx \<in> set (fst (Render sample_config lagging_env running_game)) \<and>
   (\<exists>v. take 2 (fst (Render sample_config lagging_env running_game))
          = [SetEventOnCompletion v, WaitForSingleObjectEx] \<and> uint v = 3) \<and>
   length (filter (\<lambda>c. c = WaitForSingleObjectEx) (fst (Render sample_config lagging_env running_game))) \<le> 1"
proof -
  have h: "0 \<le> sint (GetCurrentFrameIndex lagging_env)" "0 \<le> sint (GetBackBufferCount lagging_env)"
    by (simp_all add: lagging_env_def)
  have w: "WaitForSingleObjectEx \<in> set (fst (Render sample_config lagging_env running_game))"
    by (simp add: Render_cases lagging_env_def running_game_def new_game_def)
  have "sint (GetCurrentFrameIndex lagging_env) - sint (GetBackBufferCount lagging_env) = 3"
    by (simp add: lagging_env_def)
  then show ?thesis
    using h w Render_single_fence_wait[OF h, of sample_config running_game] by simp
qed

lemma Update_calls:
  "fst (Update cfg env timer game) =
     [PIXBeginEvent ''Update'', Keyboard_GetState]
       @ (if Escape (keyboard env) then [ExitGame] else [])
       @ [Mouse_GetState, PIXEndEvent]"
  by (simp add: Update_def Let_def)

lemma Update_members:
  "m_indexCount (snd (Update cfg env timer game)) = m_indexCount game \<and>
   m_cbGpuAddress (snd (Update cfg env timer game)) = m_cbGpuAddress game \<and>
   m_timer (snd (Update cfg env timer game)) = m_timer game"
  by (simp add: Update_def Let_def)

lemma run_updates_calls:
  "filter is_DrawIndexedInstanced (fst (run_updates cfg env timers game)) = [] \<and>
   length (filter (\<lambda>c. c = Keyboard_GetState) (fst (run_updates cfg env timers game))) = length timers \<and>
   length (filter (\<lambda>c. c = Mouse_GetState) (fst (run_updates cfg env timers game))) = length timers \<and>
   m_indexCount (snd (run_updates cfg env timers game)) = m_indexCount game"
proof (induction timers arbitrary: game)
  case Nil
  show ?case by simp
next
  case (Cons timer timers)
  show ?case
    using Cons.IH[of "snd (Update cfg env timer (game\<lparr>m_timer := timer\<rparr>))"]
    by (simp add: Let_def Update_calls Update_members is_DrawIndexedInstanced_def)
qed

lemma Render_draws:
  assumes "frameCount (m_timer game) \<noteq> 0" and "\<forall>v. succeeds env (SetEventOnCompletion v)"
  shows "snd (Render cfg env game) = Returned \<and>
         filter is_DrawIndexedInstanced (fst (Render cfg env game))
           = [DrawIndexedInstanced (m_indexCount game) 1 0 0 0]"
  using assms by (simp add: Render_cases is_DrawIndexedInstanced_def)

lemma Update_camera:
  fixes cfg env timer gm
  defines "dt \<equiv> elapsedSeconds timer"
  defines "camYaw \<equiv> m_camYaw gm + real_of_int (mouse_x (mouse env)) * dt / 10"
  defines "camPitch \<equiv> m_camPitch gm + real_of_int (mouse_y (mouse env)) * dt / 10"
  defines "rot \<equiv> XMMatrixRotationRollPitchYaw cfg camPitch camYaw 0"
  defines "camPosition \<equiv>
             m_camPosition gm
               + ((if key_A (keyboard env) then - 1 else if key_D (keyboard env) then 1 else 0) * dt * 5)
                   *\<^sub>R XMVector3TransformCoord cfg (DEFAULT_RIGHT_VECTOR cfg) rot
               + ((if key_W (keyboard env) then 1 else if key_S (keyboard env) then - 1 else 0) * dt * 5)
                   *\<^sub>R XMVector3TransformCoord cfg (DEFAULT_FORWARD_VECTOR cfg) rot"
  defines "camLookTarget \<equiv>
             camPosition + XMVector3Normalize cfg (XMVector3TransformCoord cfg (DEFAULT_FORWARD_VECTOR cfg) rot)"
  shows "snd (Update cfg env timer gm) =
           gm \<lparr> m_camYaw := camYaw, m_camPitch := camPitch,
                m_camRotationMatrix := rot, m_camLookTarget := camLookTarget,
                m_camRight := XMVector3TransformCoord cfg (DEFAULT_RIGHT_VECTOR cfg) rot,
                m_camUp := XMVector3TransformCoord cfg (DEFAULT_UP_VECTOR cfg) rot,
                m_camForward := XMVector3TransformCoord cfg (DEFAULT_FORWARD_VECTOR cfg) rot,
                m_camPosition := camPosition,
                m_viewMatrix := XMMatrixLookAtLH cfg camPosition camLookTarget
                                  (XMVector3TransformCoord cfg (DEFAULT_UP_VECTOR cfg) rot) \<rparr>"
  unfolding dt_def camYaw_def camPitch_def rot_def camPosition_def camLookTarget_def
  by (simp add: Update_def Let_def)

lemma run_updates_state:
  "snd (run_updates cfg env timers game)
     = foldl (\<lambda>g timer. snd (Update cfg env timer (g \<lparr> m_timer := timer \<rparr>))) game timers"
  by (induction timers arbitrary: game) (simp_all add: Let_def)

text \<open>
  C7. A call of \<open>Tick\<close> advances the timer, running \<open>Update\<close> once for each call that
  the timer makes of the update function, each on the state that the one before has
  left, and then calls \<open>Render\<close> on the state that the last one has left. Each \<open>Update\<close>
  polls the keyboard once and the mouse once, and writes the yaw, the pitch, the
  rotation, the axes, the position and the look target of the camera and the view
  matrix, computed from them and from the elapsed time. Where the frame count of the
  timer after its tick is not zero, the back-buffer count is positive and setting the
  fence event does not fail, \<open>Render\<close> returns, and of all the calls of \<open>Tick\<close> exactly one
  is an indexed draw, made by \<open>Render\<close>. After a tick with one update, the camera of the
  game is the one that this update has computed from the camera before the tick.
\<close>

theorem Tick_updates_then_draws_once:
  fixes cfg env game timer gm
  defines "t \<equiv> StepTimer_Tick env (m_timer game)"
  defines "updates \<equiv> fst (run_updates cfg env (fst t) game)"
  defines "game' \<equiv> snd (Tick cfg env game)"
  defines "dt \<equiv> elapsedSeconds timer"
  defines "camYaw \<equiv> m_camYaw gm + real_of_int (mouse_x (mouse env)) * dt / 10"
  defines "camPitch \<equiv> m_camPitch gm + real_of_int (mouse_y (mouse env)) * dt / 10"
  defines "rot \<equiv> XMMatrixRotationRollPitchYaw cfg camPitch camYaw 0"
  defines "camPosition \<equiv>
             m_camPosition gm
               + ((if key_A (keyboard env) then - 1 else if key_D (keyboard env) then 1 else 0) * dt * 5)
                   *\<^sub>R XMVector3TransformCoord cfg (DEFAULT_RIGHT_VECTOR cfg) rot
               + ((if key_W (keyboard env) then 1 else if key_S (keyboard env) then - 1 else 0) * dt * 5)
                   *\<^sub>R XMVector3TransformCoord cfg (DEFAULT_FORWARD_VECTOR cfg) rot"
  defines "camLookTarget \<equiv>
             camPosition + XMVector3Normalize cfg (XMVector3TransformCoord cfg (DEFAULT_FORWARD_VECTOR cfg) rot)"
  defines "viewMatrix \<equiv> XMMatrixLookAtLH cfg camPosition camLookTarget
                            (XMVector3TransformCoord cfg (DEFAULT_UP_VECTOR cfg) rot)"
  assumes count: "frameCount (snd t) \<noteq> 0" and ok: "\<forall>v. succeeds env (SetEventOnCompletion v)"
    and buffers: "0 < sint (GetBackBufferCount env)"
  shows "fst (fst (Tick cfg env game)) = updates @ fst (Render cfg env game') \<and>
         snd (fst (Tick cfg env game)) = Returned \<and>
         game' = (foldl (\<lambda>g timer. snd (Update cfg env timer (g \<lparr> m_timer := timer \<rparr>))) game (fst t))
                   \<lparr> m_timer := snd t \<rparr> \<and>
         fst (Update cfg env timer gm) =
           [PIXBeginEvent ''Update'', Keyboard_GetState]
             @ (if Escape (keyboard env) then [ExitGame] else [])
             @ [Mouse_GetState, PIXEndEvent] \<and>
         snd (Update cfg env timer gm) =
           gm \<lparr> m_camYaw := camYaw, m_camPitch := camPitch,
                m_camRotationMatrix := rot, m_camLookTarget := camLookTarget,
                m_camRight := XMVector3TransformCoord cfg (DEFAULT_RIGHT_VECTOR cfg) rot,
                m_camUp := XMVector3TransformCoord cfg (DEFAULT_UP_VECTOR cfg) rot,
                m_camForward := XMVector3TransformCoord cfg (DEFAULT_FORWARD_VECTOR cfg) rot,
                m_camPosition := camPosition, m_viewMatrix := viewMatrix \<rparr> \<and>
         (fst t = [timer] \<and> gm = game \<lparr> m_timer := timer \<rparr> \<longrightarrow>
            m_camYaw game' = camYaw \<and> m_camPitch game' = camPitch \<and>
            m_camPosition game' = camPosition \<and> m_camLookTarget game' = camLookTarget \<and>
            m_viewMatrix game' = viewMatrix) \<and>
         length (filter (\<lambda>c. c = Keyboard_GetState) updates) = length (fst t) \<and>
         length (filter (\<lambda>c. c = Mouse_GetState) updates) = length (fst t) \<and>
         filter is_DrawIndexedInstanced updates = [] \<and>
         filter is_DrawIndexedInstanced (fst (Render cfg env game'))
           = [DrawIndexedInstanced (m_indexCount game) 1 0 0 0] \<and>
         length (filter is_DrawIndexedInstanced (fst (fst (Tick cfg env game)))) = 1"
proof -
  have g: "game' = (snd (run_updates cfg env (fst t) game)) \<lparr> m_timer := snd t \<rparr>"
    by (simp add: game'_def Tick_def Let_def t_def)
  have F: "game' = (foldl (\<lambda>g timer. snd (Update cfg env timer (g \<lparr> m_timer := timer \<rparr>))) game (fst t))
                   \<lparr> m_timer := snd t \<rparr>"
    unfolding g by (simp add: run_updates_state)
  have T: "fst (Tick cfg env game) = (updates @ fst (Render cfg env game'), snd (Render cfg env game'))"
    by (simp add: g Tick_def Let_def t_def updates_def)
  have c: "frameCount (m_timer game') \<noteq> 0" using count by (simp add: g)
  have i: "m_indexCount game' = m_indexCount game"
    using run_updates_calls[of cfg env "fst t" game] by (simp add: g)
  note R = Render_draws[OF c ok, of cfg]
  note U = run_updates_calls[of cfg env "fst t" game, folded updates_def]
  note C = Update_camera[where cfg = cfg and env = env and timer = timer and gm = gm,
      folded dt_def, folded camYaw_def camPitch_def, folded rot_def, folded camPosition_def,
      folded camLookTarget_def, folded viewMatrix_def]
  have S: "m_camYaw game' = camYaw \<and> m_camPitch game' = camPitch \<and>
            m_camPosition game' = camPosition \<and> m_camLookTarget game' = camLookTarget \<and>
            m_viewMatrix game' = viewMatrix"
    if "fst t = [timer]" "gm = game \<lparr> m_timer := timer \<rparr>"
  proof -
    have "game' = (snd (Update cfg env timer gm)) \<lparr> m_timer := snd t \<rparr>"
      using that by (simp add: F)
    then show ?thesis by (simp add: C)
  qed
  have A: "fst (fst (Tick cfg env game)) = updates @ fst (Render cfg env game') \<and>
         snd (fst (Tick cfg env game)) = Returned \<and>
         length (filter (\<lambda>c. c = Keyboard_GetState) updates) = length (fst t) \<and>
         length (filter (\<lambda>c. c = Mouse_GetState) updates) = length (fst t) \<and>
         filter is_DrawIndexedInstanced updates = [] \<and>
         filter is_DrawIndexedInstanced (fst (Render cfg env game'))
           = [DrawIndexedInstanced (m_indexCount game) 1 0 0 0] \<and>
         length (filter is_DrawIndexedInstanced (fst (fst (Tick cfg env game)))) = 1"
    using R U by (simp add: T i g)
  show ?thesis
    using A F C S Update_calls[of cfg env timer gm] by blast
qed

theorem Tick_updates_then_draws_once_witness:
  "frameCount (snd (StepTimer_Tick lagging_env (m_timer new_game))) \<noteq> 0 \<and>
   (\<forall>v. succeeds lagging_env (SetEventOnCompletion v)) \<and>
   0 < sint (GetBackBufferCount lagging_env) \<and>
   snd (fst (Tick sample_config lagging_env new_game)) = Returned \<and>
   length (filter is_DrawIndexedInstanced (fst (fst (Tick sample_config lagging_env new_game)))) = 1 \<and>
   m_camYaw (snd (Tick sample_config lagging_env new_game)) = - 3 + 1 / 200 \<and>
   m_camPitch (snd (Tick sample_config lagging_env new_game)) = 0.37 - 1 / 300 \<and>
   m_camPosition (snd (Tick sample_config lagging_env new_game)) = float4 0 0 (200 + 1 / 12) 0"
proof -
  define timer where "timer = (m_timer new_game) \<lparr> elapsedSeconds := 1 / 60 \<rparr>"
  define gm where "gm = new_game \<lparr> m_timer := timer \<rparr>"
  have h: "frameCount (snd (StepTimer_Tick lagging_env (m_timer new_game))) \<noteq> 0"
    "\<forall>v. succeeds lagging_env (SetEventOnCompletion v)"
    "0 < sint (GetBackBufferCount lagging_env)"
    by (simp_all add: lagging_env_def variable_step_def new_game_def)
  have l: "fst (StepTimer_Tick lagging_env (m_timer new_game)) = [timer]"
    by (simp add: lagging_env_def variable_step_def timer_def)
  have m: "m_indexCount new_game = 24" "m_camYaw new_game = - 3" "m_camPitch new_game = 0.37"
    "m_camPosition new_game = float4 0 0 200 0"
    "mouse_x (mouse lagging_env) = 3" "mouse_y (mouse lagging_env) = - 2" "elapsedSeconds timer = 1 / 60"
    "key_W (keyboard lagging_env)" "\<not> key_A (keyboard lagging_env)" "\<not> key_D (keyboard lagging_env)"
    by (simp_all add: new_game_def lagging_env_def gm_def timer_def)
  have x: "XMVector3TransformCoord sample_config (DEFAULT_FORWARD_VECTOR sample_config)
             (XMMatrixRotationRollPitchYaw sample_config p y 0) = float4 0 0 1 0"
    "XMVector3TransformCoord sample_config (DEFAULT_RIGHT_VECTOR sample_config)
             (XMMatrixRotationRollPitchYaw sample_config p y 0) = float4 1 0 0 0" for p y
    by (simp_all add: sample_config_def mul_def identity4x4_def scaleR_float4_def plus_float4_def)
  note T = Tick_updates_then_draws_once[OF h, where cfg = sample_config and timer = timer and gm = gm]
  have 1: "snd (fst (Tick sample_config lagging_env new_game)) = Returned"
    and 2: "length (filter is_DrawIndexedInstanced (fst (fst (Tick sample_config lagging_env new_game)))) = 1"
    using T by blast+
  have "fst (StepTimer_Tick lagging_env (m_timer new_game)) = [timer] \<and> gm = new_game \<lparr> m_timer := timer \<rparr>"
    by (simp add: l gm_def)
  with T have 3: "m_camYaw (snd (Tick sample_config lagging_env new_game)) = - 3 + 1 / 200"
    and 4: "m_camPitch (snd (Tick sample_config lagging_env new_game)) = 0.37 - 1 / 300"
    and 5: "m_camPosition (snd (Tick sample_config lagging_env new_game)) = float4 0 0 (200 + 1 / 12) 0"
    by (simp_all add: m x gm_def scaleR_float4_def plus_float4_def)
  show ?thesis using h 1 2 3 4 5 by simp
qed

text \<open>The run of the setup in which no call fails, and the members it has written.\<close>

lemma CreateDeviceDependentResources_run:
  assumes "\<forall>c. succeeds env c"
  shows "CreateDeviceDependentResources cfg env game =
     (([CheckFeatureSupport, GetDescriptorHandleIncrementSize,
        D3D12SerializeRootSignature [DescriptorTable_SRV 2 0, ConstantBufferView 0] 1,
        CreateRootSignature, CreateDescriptorHeap 2 True,
        ResourceUpload_Begin, CreateDDSTextureFromFile ''colormap.dds'', ResourceUpload_End,
        ResourceUpload_Begin, CreateDDSTextureFromFile ''displacement.dds'', ResourceUpload_End,
        CreateShaderResourceView ''colormap.dds'' 0, CreateShaderResourceView ''displacement.dds'' 1,
        CreateCommittedResource m_cbUploadHeap (cbSize cfg env),
        Resource_Map m_cbUploadHeap,
        ReadData ''VertexShader.cso'', ReadData ''HullShader.cso'', ReadData ''DomainShader.cso'',
        ReadData ''PixelShader.cso'', CreateGraphicsPipelineState, CreateQuadBox,
        CreateCommittedResource m_vertexBuffer (scast (vertexBufferSize cfg env)),
        Resource_Map m_vertexBuffer, Resource_Unmap m_vertexBuffer,
        CreateCommittedResource m_indexBuffer (scast (indexBufferSize env)),
        Resource_Map m_indexBuffer, Resource_Unmap m_indexBuffer,
        WaitForGpu, CreateFence (ucast (GetCurrentFrameIndex env))], Returned),
      init_camera cfg (game \<lparr> m_cbGpuAddress := GetGPUVirtualAddress env m_cbUploadHeap,
                               m_indexCount := unat (quadBox_indices env) \<rparr>))"
  using assms by (simp add: CreateDeviceDependentResources_def)

text \<open>
  A run that fails at the creation of the pipeline state has written the address of
  the constant buffers, and neither the number of indices nor the camera.
\<close>

lemma CreateDeviceDependentResources_failed_pipeline:
  assumes "\<forall>c. succeeds env c \<longleftrightarrow> c \<noteq> CreateGraphicsPipelineState"
  shows "snd (fst (CreateDeviceDependentResources cfg env game)) = Thrown com_exception \<and>
         snd (CreateDeviceDependentResources cfg env game)
           = game \<lparr> m_cbGpuAddress := GetGPUVirtualAddress env m_cbUploadHeap \<rparr>"
  using assms by (simp add: CreateDeviceDependentResources_def)

lemma cbSize_unat:
  assumes "unat (c_numDrawCalls cfg) * unat (GetBackBufferCount env) < 2 ^ 32"
    and "unat (c_numDrawCalls cfg) * unat (GetBackBufferCount env) * sizeof_PaddedConstantBuffer cfg < 2 ^ 64"
    and "sizeof_PaddedConstantBuffer cfg < 2 ^ 64"
  shows "unat (cbSize cfg env)
           = unat (c_numDrawCalls cfg) * unat (GetBackBufferCount env) * sizeof_PaddedConstantBuffer cfg"
proof -
  define p where "p = c_numDrawCalls cfg * GetBackBufferCount env"
  have p: "unat p = unat (c_numDrawCalls cfg) * unat (GetBackBufferCount env)"
    unfolding p_def using assms(1) unat_mult_lem[of "c_numDrawCalls cfg" "GetBackBufferCount env"]
    by simp
  have "uint (ucast p :: 64 word) = uint p"
    by (rule uint_up_ucast) (simp add: is_up)
  then have u: "unat (ucast p :: 64 word) = unat p"
    by (simp only: unat_eq_nat_uint)
  have s: "unat (of_nat (sizeof_PaddedConstantBuffer cfg) :: 64 word) = sizeof_PaddedConstantBuffer cfg"
    using assms(3) by (simp add: unat_of_nat)
  have "unat (ucast p :: 64 word) * unat (of_nat (sizeof_PaddedConstantBuffer cfg) :: 64 word)
          < 2 ^ LENGTH(64)"
    using assms(2) by (simp add: u p s)
  then have "unat ((ucast p :: 64 word) * of_nat (sizeof_PaddedConstantBuffer cfg))
               = unat (ucast p :: 64 word) * unat (of_nat (sizeof_PaddedConstantBuffer cfg) :: 64 word)"
    by (simp only: unat_mult_lem)
  then show ?thesis by (simp add: cbSize_def u p s flip: p_def)
qed

text \<open>
  C8, as stated, fails. On the run of the setup where no call fails, the calls that
  create an object include \<open>CreateFence\<close>: the fence is not among the objects that the
  specification lists.
\<close>

theorem CreateDeviceDependentResources_fence_counterexample:
  "CreateFence 5 \<in> set (filter is_creation
      (fst (fst (CreateDeviceDependentResources sample_config lagging_env new_game)))) \<and>
   CreateFence 5 \<notin> set (spec_created sample_config lagging_env) \<and>
   set (filter is_creation (fst (fst (CreateDeviceDependentResources sample_config lagging_env new_game))))
     \<noteq> set (spec_created sample_config lagging_env)"
proof -
  have h: "\<forall>c. succeeds lagging_env c" by (simp add: lagging_env_def)
  have i: "(ucast (GetCurrentFrameIndex lagging_env) :: 64 word) = 5"
    by (simp add: lagging_env_def)
  have a: "CreateFence 5 \<in> set (filter is_creation
      (fst (fst (CreateDeviceDependentResources sample_config lagging_env new_game))))"
    unfolding CreateDeviceDependentResources_run[OF h] i by (simp add: is_creation_def)
  have b: "CreateFence 5 \<notin> set (spec_created sample_config lagging_env)"
    by (simp add: spec_created_def)
  from a b show ?thesis by blast
qed

text \<open>
  C8, amended. Where no call fails, \<open>CreateDeviceDependentResources\<close> returns after
  creating exactly: one root signature (a descriptor table of two shader resource views
  from register 0, and one root constant buffer view), one pipeline state object, one
  descriptor heap (two descriptors, visible to the shaders), two textures
  (\<open>colormap.dds\<close> and \<open>displacement.dds\<close>) with one view of each in the slots 0 and 1 of
  the heap, three committed buffers and one fence. The ring of constant buffers has
  the 32-bit unsigned product of \<open>c_numDrawCalls\<close> and the back-buffer count, times
  \<open>sizeof(PaddedConstantBuffer)\<close>, bytes: \<open>c_numDrawCalls\<close> times the back-buffer count
  elements where the products do not overflow. A frame of \<open>Render\<close> that draws, with a
  positive back-buffer count, makes one indexed draw, with root parameter 0 bound to
  the descriptors from slot 0 of the heap, which are the views of the two textures, and
  one constant buffer view at root parameter 1.
\<close>

theorem CreateDeviceDependentResources_creates:
  fixes cfg env game envR gameR
  defines "calls \<equiv> fst (fst (CreateDeviceDependentResources cfg env game))"
  defines "frame \<equiv> fst (Render cfg envR gameR)"
  assumes ok: "\<forall>c. succeeds env c"
  shows "snd (fst (CreateDeviceDependentResources cfg env game)) = Returned \<and>
         filter is_creation calls
           = [CreateRootSignature, CreateDescriptorHeap 2 True,
              CreateDDSTextureFromFile ''colormap.dds'', CreateDDSTextureFromFile ''displacement.dds'',
              CreateShaderResourceView ''colormap.dds'' 0, CreateShaderResourceView ''displacement.dds'' 1,
              CreateCommittedResource m_cbUploadHeap
                (ucast (c_numDrawCalls cfg * GetBackBufferCount env)
                   * of_nat (sizeof_PaddedConstantBuffer cfg)),
              CreateGraphicsPipelineState,
              CreateCommittedResource m_vertexBuffer
                (scast (ucast (of_nat (sizeof_VertexPositionNormalTexture cfg) * quadBox_vertices env)
                          :: 32 word)),
              CreateCommittedResource m_indexBuffer (scast (ucast (2 * quadBox_indices env) :: 32 word)),
              CreateFence (ucast (GetCurrentFrameIndex env))] \<and>
         (unat (c_numDrawCalls cfg) * unat (GetBackBufferCount env) < 2 ^ 32 \<and>
          unat (c_numDrawCalls cfg) * unat (GetBackBufferCount env) * sizeof_PaddedConstantBuffer cfg < 2 ^ 64 \<and>
          sizeof_PaddedConstantBuffer cfg < 2 ^ 64 \<longrightarrow>
            unat (ucast (c_numDrawCalls cfg * GetBackBufferCount env)
                    * of_nat (sizeof_PaddedConstantBuffer cfg) :: 64 word)
              = unat (c_numDrawCalls cfg) * unat (GetBackBufferCount env) * sizeof_PaddedConstantBuffer cfg) \<and>
         filter is_D3D12SerializeRootSignature calls
           = [D3D12SerializeRootSignature [DescriptorTable_SRV 2 0, ConstantBufferView 0] 1] \<and>
         srv_in_slot calls 0 = Some ''colormap.dds'' \<and>
         srv_in_slot calls 1 = Some ''displacement.dds'' \<and>
         m_indexCount (snd (CreateDeviceDependentResources cfg env game)) = unat (quadBox_indices env) \<and>
         m_cbGpuAddress (snd (CreateDeviceDependentResources cfg env game))
           = GetGPUVirtualAddress env m_cbUploadHeap \<and>
         (0 < sint (GetBackBufferCount envR) \<and> filter is_DrawIndexedInstanced frame \<noteq> [] \<longrightarrow>
            filter is_DrawIndexedInstanced frame = [DrawIndexedInstanced (m_indexCount gameR) 1 0 0 0] \<and>
            filter is_SetGraphicsRootDescriptorTable frame = [SetGraphicsRootDescriptorTable 0 0] \<and>
            (\<exists>address. filter is_SetGraphicsRootConstantBufferView frame
                          = [SetGraphicsRootConstantBufferView 1 address]))"
proof -
  note R = CreateDeviceDependentResources_run[OF ok, of cfg game]
  have 0: "snd (fst (CreateDeviceDependentResources cfg env game)) = Returned"
    by (simp add: R)
  have 1: "filter is_creation calls
           = [CreateRootSignature, CreateDescriptorHeap 2 True,
              CreateDDSTextureFromFile ''colormap.dds'', CreateDDSTextureFromFile ''displacement.dds'',
              CreateShaderResourceView ''colormap.dds'' 0, CreateShaderResourceView ''displacement.dds'' 1,
              CreateCommittedResource m_cbUploadHeap
                (ucast (c_numDrawCalls cfg * GetBackBufferCount env)
                   * of_nat (sizeof_PaddedConstantBuffer cfg)),
              CreateGraphicsPipelineState,
              CreateCommittedResource m_vertexBuffer
                (scast (ucast (of_nat (sizeof_VertexPositionNormalTexture cfg) * quadBox_vertices env)
                          :: 32 word)),
              CreateCommittedResource m_indexBuffer (scast (ucast (2 * quadBox_indices env) :: 32 word)),
              CreateFence (ucast (GetCurrentFrameIndex env))]"
    by (simp add: calls_def R is_creation_def cbSize_def vertexBufferSize_def indexBufferSize_def)
  have 2: "filter is_D3D12SerializeRootSignature calls
           = [D3D12SerializeRootSignature [DescriptorTable_SRV 2 0, ConstantBufferView 0] 1]"
    by (simp add: calls_def R is_D3D12SerializeRootSignature_def)
  have 3: "srv_in_slot calls 0 = Some ''colormap.dds''" "srv_in_slot calls 1 = Some ''displacement.dds''"
    by (simp_all add: calls_def R)
  have 4: "m_indexCount (snd (CreateDeviceDependentResources cfg env game)) = unat (quadBox_indices env)"
    "m_cbGpuAddress (snd (CreateDeviceDependentResources cfg env game))
           = GetGPUVirtualAddress env m_cbUploadHeap"
    by (simp_all add: R init_camera_def Let_def)
  have 5: "filter is_DrawIndexedInstanced frame \<noteq> [] \<longrightarrow>
            filter is_DrawIndexedInstanced frame = [DrawIndexedInstanced (m_indexCount gameR) 1 0 0 0] \<and>
            filter is_SetGraphicsRootDescriptorTable frame = [SetGraphicsRootDescriptorTable 0 0] \<and>
            (\<exists>address. filter is_SetGraphicsRootConstantBufferView frame
                          = [SetGraphicsRootConstantBufferView 1 address])"
    unfolding frame_def
    by (simp add: Render_cases is_DrawIndexedInstanced_def is_SetGraphicsRootDescriptorTable_def
        is_SetGraphicsRootConstantBufferView_def)
  note 6 = cbSize_unat[of cfg env, unfolded cbSize_def]
  show ?thesis using 0 1 2 3 4 5 6 by blast
qed

theorem CreateDeviceDependentResources_creates_witness:
  "(\<forall>c. succeeds lagging_env c) \<and>
   snd (fst (CreateDeviceDependentResources sample_config lagging_env new_game)) = Returned \<and>
   filter is_CreateCommittedResource (fst (fst (CreateDeviceDependentResources sample_config lagging_env new_game)))
     = [CreateCommittedResource m_cbUploadHeap 512, CreateCommittedResource m_vertexBuffer 768,
        CreateCommittedResource m_indexBuffer 48] \<and>
   0 < sint (GetBackBufferCount lagging_env) \<and>
   filter is_DrawIndexedInstanced (fst (Render sample_config lagging_env running_game)) \<noteq> [] \<and>
   filter is_SetGraphicsRootDescriptorTable (fst (Render sample_config lagging_env running_game))
     = [SetGraphicsRootDescriptorTable 0 0] \<and>
   srv_in_slot (fst (fst (CreateDeviceDependentResources sample_config lagging_env new_game))) 1
     = Some ''displacement.dds''"
proof -
  have h: "\<forall>c. succeeds lagging_env c" by (simp add: lagging_env_def)
  have b: "0 < sint (GetBackBufferCount lagging_env)" by (simp add: lagging_env_def)
  have d: "filter is_DrawIndexedInstanced (fst (Render sample_config lagging_env running_game)) \<noteq> []"
    by (simp add: Render_cases lagging_env_def running_game_def new_game_def is_DrawIndexedInstanced_def)
  have s: "(ucast (c_numDrawCalls sample_config * GetBackBufferCount lagging_env)
             * of_nat (sizeof_PaddedConstantBuffer sample_config) :: 64 word) = 512"
    "(scast (ucast (of_nat (sizeof_VertexPositionNormalTexture sample_config) * quadBox_vertices lagging_env)
               :: 32 word) :: 64 word) = 768"
    "(scast (ucast (2 * quadBox_indices lagging_env) :: 32 word) :: 64 word) = 48"
    by (simp_all add: sample_config_def lagging_env_def)
  have f: "filter is_CreateCommittedResource (filter is_creation cs) = filter is_CreateCommittedResource cs" for cs
    by (induction cs) (auto simp: is_creation_def is_CreateCommittedResource_def split: call.splits)
  have "filter is_CreateCommittedResource
          (filter is_creation (fst (fst (CreateDeviceDependentResources sample_config lagging_env new_game))))
        = [CreateCommittedResource m_cbUploadHeap 512, CreateCommittedResource m_vertexBuffer 768,
           CreateCommittedResource m_indexBuffer 48]"
    using CreateDeviceDependentResources_creates[OF h, where cfg = sample_config and game = new_game
        and envR = lagging_env and gameR = running_game]
    by (simp add: s is_CreateCommittedResource_def)
  then have c: "filter is_CreateCommittedResource
          (fst (fst (CreateDeviceDependentResources sample_config lagging_env new_game)))
        = [CreateCommittedResource m_cbUploadHeap 512, CreateCommittedResource m_vertexBuffer 768,
           CreateCommittedResource m_indexBuffer 48]"
    by (simp only: f)
  show ?thesis
    using h b d c CreateDeviceDependentResources_creates[OF h, where cfg = sample_config and game = new_game
        and envR = lagging_env and gameR = running_game]
    by simp
qed

end
